theory Spec2Isabelle
  imports Main "HOL-Library.AList" "HOL-Library.Multiset" "HOL-Library.Word"
begin

section \<open>ScienceSourceIngest: the annotation graph and its synchronisation (sciencesource.go)\<close>

text \<open>
  The development follows \<^verbatim>\<open>sciencesource.go\<close>. Go strings are byte sequences, and so
  are HOL strings (a \<^typ>\<open>char\<close> is one byte). Go's \<^verbatim>\<open>int\<close> is taken at its 64-bit
  width. An \<^verbatim>\<open>error\<close> result is a value of \<open>error option\<close>, \<open>None\<close> being Go's nil.
\<close>

subsection \<open>Errors\<close>

text \<open>
  The errors that can reach a caller: those of the operating system (\<^verbatim>\<open>os.Create\<close>,
  \<^verbatim>\<open>os.Open\<close>, \<^verbatim>\<open>ioutil.ReadFile\<close>, a failed write), those of the JSON decoder, and
  those of the remote store client, which this file never inspects.
\<close>

datatype error =
    PathError string string
  | ClientError string
  | SyntaxError
  | UnmarshalTypeError string
  | EOF
  | ErrUnexpectedEOF

subsection \<open>The three record schemas\<close>

type_synonym ItemType = string

record ScienceSourceAnnotation =
  Item_An :: ItemType
  TermFound :: string
  LengthOfTermFound :: "64 word"
  WikiDataItemCode_An :: string
  DictionaryName :: string
  TimeCode_An :: string
  InstanceOf_An :: string
  ScienceSourceItemID_An :: string

record ScienceSourceAnchorPoint =
  Item_AP :: ItemType
  PrecedingPhrase_AP :: string
  FollowingPhrase_AP :: string
  DistanceToPreceding :: "64 word"
  DistanceToFollowing :: "64 word"
  CharacterNumber_AP :: "64 word"
  TimeCode_AP :: string
  InstanceOf_AP :: string
  ScienceSourceArticleTitle_AP :: string
  AnchorPoint :: string
  PrecedingAnchorPoint :: string
  FollowingAnchorPoint_AP :: string
  Anchors :: string
  ScienceSourceItemID_AP :: string
  Annotation :: ScienceSourceAnnotation

text \<open>
  \<open>Annotations\<close> is a Go slice: \<open>None\<close> is the nil slice, \<open>Some []\<close> the empty one.
\<close>

record ScienceSourceArticle =
  Item_Ar :: ItemType
  WikiDataItemCode_Ar :: string
  ArticleTextTitle :: string
  PublicationDate :: string
  TimeCode_Ar :: string
  CharacterNumber_Ar :: "64 word"
  PrecedingPhrase_Ar :: string
  FollowingPhrase_Ar :: string
  InstanceOf_Ar :: string
  ScienceSourceArticleTitle_Ar :: string
  PageID :: "64 word"
  FollowingAnchorPoint_Ar :: string
  Annotations :: "ScienceSourceAnchorPoint list option"

subsection \<open>Struct tags, as reflection sees them\<close>

text \<open>
  A \<^verbatim>\<open>reflect.Type\<close> of a struct is the list of its fields in declaration order
  (\<^verbatim>\<open>NumField\<close> is its length, \<^verbatim>\<open>Field(i)\<close> its i-th element). A struct tag is
  the list of its \<^verbatim>\<open>key:"value"\<close> pairs in the order written, and \<^verbatim>\<open>Tag.Get\<close>
  returns the value of the first pair with the key, or the empty string.
\<close>

record StructField =
  Name :: string
  Tag :: "(string \<times> string) list"

definition Get :: "(string \<times> string) list \<Rightarrow> string \<Rightarrow> string" where
  "Get tag key = (case map_of tag key of None \<Rightarrow> [] | Some v \<Rightarrow> v)"

definition fld :: "string \<Rightarrow> (string \<times> string) list \<Rightarrow> StructField" where
  "fld n t = \<lparr>Name = n, Tag = t\<rparr>"

definition TypeOf_ScienceSourceAnnotation :: "StructField list" where
  "TypeOf_ScienceSourceAnnotation =
    [fld ''Item'' [(''item'', ''annotation'')],
     fld ''TermFound'' [(''json'', ''term''), (''property'', ''term found'')],
     fld ''LengthOfTermFound'' [(''json'', ''length''), (''property'', ''length of term found'')],
     fld ''WikiDataItemCode'' [(''json'', ''wikidata''), (''property'', ''Wikidata item code'')],
     fld ''DictionaryName'' [(''json'', ''dictionary''), (''property'', ''dictionary name'')],
     fld ''TimeCode'' [(''json'', ''time''), (''property'', ''time code1'')],
     fld ''InstanceOf'' [(''json'', ''instance_of''), (''property'', ''instance of'')],
     fld ''ScienceSourceItemID'' [(''json'', ''id'')]]"

definition TypeOf_ScienceSourceAnchorPoint :: "StructField list" where
  "TypeOf_ScienceSourceAnchorPoint =
    [fld ''Item'' [(''item'', ''anchor point'')],
     fld ''PrecedingPhrase'' [(''json'', ''preceding_phrase''), (''property'', ''preceding phrase'')],
     fld ''FollowingPhrase'' [(''json'', ''following_phrase''), (''property'', ''following phrase'')],
     fld ''DistanceToPreceding''
       [(''json'', ''preceding_distance''), (''property'', ''distance to preceding'')],
     fld ''DistanceToFollowing''
       [(''json'', ''following_distance''), (''property'', ''distance to following'')],
     fld ''CharacterNumber'' [(''json'', ''character''), (''property'', ''character number'')],
     fld ''TimeCode'' [(''json'', ''time''), (''property'', ''time code1'')],
     fld ''InstanceOf'' [(''json'', ''instance_of''), (''property'', ''instance of'')],
     fld ''ScienceSourceArticleTitle''
       [(''json'', ''science_source_title''), (''property'', ''ScienceSource article title'')],
     fld ''AnchorPoint'' [(''json'', ''point''), (''property'', ''anchor point in'')],
     fld ''PrecedingAnchorPoint''
       [(''json'', ''preceding_anchor''), (''property'', ''preceding anchor point'')],
     fld ''FollowingAnchorPoint''
       [(''json'', ''following_anchor''), (''property'', ''following anchor point'')],
     fld ''Anchors'' [(''json'', ''anchors''), (''property'', ''anchors'')],
     fld ''ScienceSourceItemID'' [(''json'', ''id'')],
     fld ''Annotation'' [(''json'', ''annotation'')]]"

definition TypeOf_ScienceSourceArticle :: "StructField list" where
  "TypeOf_ScienceSourceArticle =
    [fld ''Item'' [(''item'', ''article'')],
     fld ''WikiDataItemCode'' [(''json'', ''wikidata''), (''property'', ''Wikidata item code'')],
     fld ''ArticleTextTitle'' [(''json'', ''title''), (''property'', ''article text title'')],
     fld ''PublicationDate'' [(''json'', ''publication_date''), (''property'', ''publication date'')],
     fld ''TimeCode'' [(''json'', ''time''), (''property'', ''time code1'')],
     fld ''CharacterNumber'' [(''json'', ''character''), (''property'', ''character number'')],
     fld ''PrecedingPhrase'' [(''json'', ''preceding_phrase''), (''property'', ''preceding phrase'')],
     fld ''FollowingPhrase'' [(''json'', ''following_phrase''), (''property'', ''following phrase'')],
     fld ''InstanceOf'' [(''json'', ''instance_of''), (''property'', ''instance of'')],
     fld ''ScienceSourceArticleTitle''
       [(''json'', ''science_source_title''), (''property'', ''ScienceSource article title'')],
     fld ''PageID'' [(''json'', ''page_id''), (''property'', ''page ID'')],
     fld ''FollowingAnchorPoint''
       [(''json'', ''following_anchor''), (''property'', ''following anchor point'')],
     fld ''Annotations'' [(''json'', ''annotations'')]]"

subsection \<open>getValuesForTags\<close>

text \<open>
  \<^verbatim>\<open>tagset\<close> is a Go \<^verbatim>\<open>map[string]bool\<close>, kept here as an association list with one
  pair per key: \<^verbatim>\<open>tagset[tag] = true\<close> is \<^const>\<open>AList.update\<close>, which overwrites the
  pair of a key already present and adds one otherwise.
\<close>

type_synonym tagset = "(string \<times> bool) list"

text \<open>The inner loop, lines 177 to 183: the fields of one type, in index order.\<close>

fun field_loop :: "string \<Rightarrow> StructField list \<Rightarrow> tagset \<Rightarrow> tagset" where
  "field_loop tagname [] tagset = tagset"
| "field_loop tagname (f # fs) tagset =
     (let tag = Get (Tag f) tagname
      in field_loop tagname fs
           (if length tag > 0 then AList.update tag True tagset else tagset))"

text \<open>The outer loop, line 176, over any array of types.\<close>

fun types_loop :: "string \<Rightarrow> StructField list list \<Rightarrow> tagset \<Rightarrow> tagset" where
  "types_loop tagname [] tagset = tagset"
| "types_loop tagname (t # ts) tagset = types_loop tagname ts (field_loop tagname t tagset)"

definition types :: "StructField list list" where
  "types = [TypeOf_ScienceSourceAnnotation, TypeOf_ScienceSourceAnchorPoint,
            TypeOf_ScienceSourceArticle]"

text \<open>
  \<^verbatim>\<open>for k := range tagset\<close> visits every key of the map once, in an order Go leaves
  unspecified: the keys appended are some arrangement of the map's keys.
\<close>

definition range_keys :: "('k \<times> 'v) list \<Rightarrow> 'k list \<Rightarrow> bool" where
  "range_keys m ks \<longleftrightarrow> mset ks = mset (map fst m)"

text \<open>
  \<open>getValuesForTags_of ts tagname list\<close>: over the types \<open>ts\<close>, the function can return
  \<open>list\<close>. \<open>getValuesForTags\<close> is the function of the source, over its three types.
\<close>

definition getValuesForTags_of :: "StructField list list \<Rightarrow> string \<Rightarrow> string list \<Rightarrow> bool" where
  "getValuesForTags_of ts tagname list \<longleftrightarrow> range_keys (types_loop tagname ts []) list"

definition getValuesForTags :: "string \<Rightarrow> string list \<Rightarrow> bool" where
  "getValuesForTags tagname list \<longleftrightarrow> getValuesForTags_of types tagname list"

subsection \<open>The client and the remote store\<close>

text \<open>
  \<^verbatim>\<open>WikiDataClient\<close> is the remote store's client, declared elsewhere: its three
  methods called here are parameters. A lookup or an upload returns a value or an error.
\<close>

record WikiDataClient =
  GetPropertyForLabel :: "string \<Rightarrow> error + string"
  GetItemForLabel :: "string \<Rightarrow> error + string"
  CreateArticle :: "string \<Rightarrow> string \<Rightarrow> error + 64 word"

text \<open>
  The two maps of \<^verbatim>\<open>ScienceSourceClient\<close>. \<^verbatim>\<open>NewScienceSourceClient\<close>, the
  constructor of the source, makes both, so neither is a nil map.
\<close>

record ScienceSourceClient =
  PropertyMap :: "string \<rightharpoonup> string"
  ItemMap :: "string \<rightharpoonup> string"

definition NewScienceSourceClient :: ScienceSourceClient where
  "NewScienceSourceClient = \<lparr>PropertyMap = Map.empty, ItemMap = Map.empty\<rparr>"

text \<open>The requests sent to the remote store, in the order sent.\<close>

datatype request = PropertyLookup string | ItemLookup string

text \<open>The loop of lines 130 to 136, over the list it ranges over.\<close>

fun property_loop ::
  "WikiDataClient \<Rightarrow> string list \<Rightarrow> ScienceSourceClient \<Rightarrow> request list \<Rightarrow>
   error option \<times> ScienceSourceClient \<times> request list" where
  "property_loop w [] c sent = (None, c, sent)"
| "property_loop w (i # rest) c sent =
     (case GetPropertyForLabel w i of
        Inl err \<Rightarrow> (Some err, c, sent @ [PropertyLookup i])
      | Inr label \<Rightarrow>
          property_loop w rest (c\<lparr>PropertyMap := (PropertyMap c)(i \<mapsto> label)\<rparr>)
            (sent @ [PropertyLookup i]))"

text \<open>The loop of lines 139 to 145.\<close>

fun item_loop ::
  "WikiDataClient \<Rightarrow> string list \<Rightarrow> ScienceSourceClient \<Rightarrow> request list \<Rightarrow>
   error option \<times> ScienceSourceClient \<times> request list" where
  "item_loop w [] c sent = (None, c, sent)"
| "item_loop w (i # rest) c sent =
     (case GetItemForLabel w i of
        Inl err \<Rightarrow> (Some err, c, sent @ [ItemLookup i])
      | Inr label \<Rightarrow>
          item_loop w rest (c\<lparr>ItemMap := (ItemMap c)(i \<mapsto> label)\<rparr>)
            (sent @ [ItemLookup i]))"

text \<open>
  \<open>plist\<close> and \<open>ilist\<close> are the lists that the calls of \<^verbatim>\<open>getValuesForTags\<close> at lines
  129 and 138 return. The result is the error returned, the client after the call and
  the requests sent.
\<close>

definition GetPropertyAndItemConfigurationFromServer ::
  "WikiDataClient \<Rightarrow> string list \<Rightarrow> string list \<Rightarrow> ScienceSourceClient \<Rightarrow>
   error option \<times> ScienceSourceClient \<times> request list" where
  "GetPropertyAndItemConfigurationFromServer w plist ilist c =
     (case property_loop w plist c [] of
        (Some err, c', sent) \<Rightarrow> (Some err, c', sent)
      | (None, c', sent) \<Rightarrow> item_loop w ilist c' sent)"

subsection \<open>UploadPaper\<close>

text \<open>
  \<open>ReadFile\<close> is \<^verbatim>\<open>ioutil.ReadFile\<close> on the file system of the call. The article is
  passed by pointer: the result is the error returned and the article after the call.
\<close>

definition UploadPaper ::
  "WikiDataClient \<Rightarrow> (string \<Rightarrow> error + string) \<Rightarrow> ScienceSourceArticle \<Rightarrow> string \<Rightarrow>
   error option \<times> ScienceSourceArticle" where
  "UploadPaper w ReadFile article htmlFileName =
     (case ReadFile htmlFileName of
        Inl err \<Rightarrow> (Some err, article)
      | Inr data \<Rightarrow>
          (case CreateArticle w (ScienceSourceArticleTitle_Ar article) data of
             Inl upload_error \<Rightarrow> (Some upload_error, article)
           | Inr page_id \<Rightarrow> (None, article\<lparr>PageID := page_id\<rparr>)))"

subsection \<open>JSON documents and the coercion of strings to UTF-8\<close>

text \<open>
  \<^verbatim>\<open>encoding/json\<close> is taken at the level of JSON values: what the encoder writes for
  a value of one of the three structs, and what the decoder stores from a JSON value
  into one. Its text layer (escapes, white space) is inverted by the decoder and is not
  part of the model. \<open>JInt\<close> is a number written as an integer literal, \<open>JFraction\<close>
  any other number; a \<open>JString\<close> holds the bytes of the string, unescaped.
\<close>

datatype json =
    JNull
  | JBool bool
  | JInt int
  | JFraction
  | JString string
  | JArray "json list"
  | JObject "(string \<times> json) list"

definition in_range :: "nat \<Rightarrow> nat \<Rightarrow> char \<Rightarrow> bool" where
  "in_range lo hi c \<longleftrightarrow> lo \<le> of_char c \<and> (of_char c :: nat) \<le> hi"

text \<open>The second byte a first byte accepts (\<^verbatim>\<open>acceptRanges\<close> of \<^verbatim>\<open>unicode/utf8\<close>).\<close>

definition accept :: "nat \<Rightarrow> nat \<times> nat" where
  "accept x =
     (if x = 0xE0 then (0xA0, 0xBF)
      else if x = 0xED then (0x80, 0x9F)
      else if x = 0xF0 then (0x90, 0xBF)
      else if x = 0xF4 then (0x80, 0x8F)
      else (0x80, 0xBF))"

text \<open>
  \<^verbatim>\<open>utf8.DecodeRuneInString\<close> on a non-empty string: \<open>Some n\<close> when the string starts
  with a well-formed rune of \<open>n\<close> bytes, \<open>None\<close> when it does not (Go's
  \<^verbatim>\<open>(RuneError, 1)\<close>).
\<close>

fun DecodeRuneInString :: "string \<Rightarrow> nat option" where
  "DecodeRuneInString [] = None"
| "DecodeRuneInString (c # s) =
     (let x = (of_char c :: nat); lo = fst (accept x); hi = snd (accept x)
      in if x < 0x80 then Some 1
         else if 0xC2 \<le> x \<and> x \<le> 0xDF then
           (case s of
              b1 # _ \<Rightarrow> if in_range 0x80 0xBF b1 then Some 2 else None
            | _ \<Rightarrow> None)
         else if 0xE0 \<le> x \<and> x \<le> 0xEF then
           (case s of
              b1 # b2 # _ \<Rightarrow>
                if in_range lo hi b1 \<and> in_range 0x80 0xBF b2 then Some 3 else None
            | _ \<Rightarrow> None)
         else if 0xF0 \<le> x \<and> x \<le> 0xF4 then
           (case s of
              b1 # b2 # b3 # _ \<Rightarrow>
                if in_range lo hi b1 \<and> in_range 0x80 0xBF b2 \<and> in_range 0x80 0xBF b3
                then Some 4 else None
            | _ \<Rightarrow> None)
         else None)"

lemma DecodeRuneInString_positive: "DecodeRuneInString s = Some n \<Longrightarrow> 0 < n"
  by (cases s) (auto simp: Let_def split: if_splits list.splits)

declare DecodeRuneInString.simps [simp del]

text \<open>
  The encoder writes a string coerced to valid UTF-8: every byte that does not start a
  well-formed rune is replaced by U+FFFD (the bytes EF BF BD), the rest is kept.
\<close>

function coerce_utf8 :: "string \<Rightarrow> string" where
  "coerce_utf8 [] = []"
| "coerce_utf8 (c # s) =
     (case DecodeRuneInString (c # s) of
        None \<Rightarrow> [CHR 0xEF, CHR 0xBF, CHR 0xBD] @ coerce_utf8 s
      | Some n \<Rightarrow> take n (c # s) @ coerce_utf8 (drop n (c # s)))"
  by pat_completeness auto
termination
proof (relation "measure length")
  fix c s n
  assume "DecodeRuneInString (c # s) = Some n"
  then have "0 < n" by (rule DecodeRuneInString_positive)
  then show "(drop n (c # s), c # s) \<in> measure length" by simp
qed simp_all

text \<open>\<^verbatim>\<open>utf8.ValidString\<close>: every byte belongs to a well-formed rune.\<close>

function ValidString :: "string \<Rightarrow> bool" where
  "ValidString [] = True"
| "ValidString (c # s) =
     (case DecodeRuneInString (c # s) of
        None \<Rightarrow> False
      | Some n \<Rightarrow> ValidString (drop n (c # s)))"
  by pat_completeness auto
termination
proof (relation "measure length")
  fix c s n
  assume "DecodeRuneInString (c # s) = Some n"
  then have "0 < n" by (rule DecodeRuneInString_positive)
  then show "(drop n (c # s), c # s) \<in> measure length" by simp
qed simp_all

subsection \<open>The encoder\<close>

text \<open>
  A struct is written as an object with one member per field, in declaration order,
  under the key of the field's \<^verbatim>\<open>json\<close> tag; \<^verbatim>\<open>Item\<close> has none and is written
  under its own name. An \<^verbatim>\<open>int\<close> is written as its decimal literal, a nil slice as
  \<^verbatim>\<open>null\<close>, any other slice as an array.
\<close>

definition encode_string :: "string \<Rightarrow> json" where
  "encode_string s = JString (coerce_utf8 s)"

definition encode_int :: "64 word \<Rightarrow> json" where
  "encode_int n = JInt (sint n)"

definition encode_Annotation :: "ScienceSourceAnnotation \<Rightarrow> json" where
  "encode_Annotation a = JObject
     [(''Item'', encode_string (Item_An a)),
      (''term'', encode_string (TermFound a)),
      (''length'', encode_int (LengthOfTermFound a)),
      (''wikidata'', encode_string (WikiDataItemCode_An a)),
      (''dictionary'', encode_string (DictionaryName a)),
      (''time'', encode_string (TimeCode_An a)),
      (''instance_of'', encode_string (InstanceOf_An a)),
      (''id'', encode_string (ScienceSourceItemID_An a))]"

definition encode_AnchorPoint :: "ScienceSourceAnchorPoint \<Rightarrow> json" where
  "encode_AnchorPoint p = JObject
     [(''Item'', encode_string (Item_AP p)),
      (''preceding_phrase'', encode_string (PrecedingPhrase_AP p)),
      (''following_phrase'', encode_string (FollowingPhrase_AP p)),
      (''preceding_distance'', encode_int (DistanceToPreceding p)),
      (''following_distance'', encode_int (DistanceToFollowing p)),
      (''character'', encode_int (CharacterNumber_AP p)),
      (''time'', encode_string (TimeCode_AP p)),
      (''instance_of'', encode_string (InstanceOf_AP p)),
      (''science_source_title'', encode_string (ScienceSourceArticleTitle_AP p)),
      (''point'', encode_string (AnchorPoint p)),
      (''preceding_anchor'', encode_string (PrecedingAnchorPoint p)),
      (''following_anchor'', encode_string (FollowingAnchorPoint_AP p)),
      (''anchors'', encode_string (Anchors p)),
      (''id'', encode_string (ScienceSourceItemID_AP p)),
      (''annotation'', encode_Annotation (Annotation p))]"

definition encode_Annotations :: "ScienceSourceAnchorPoint list option \<Rightarrow> json" where
  "encode_Annotations ps =
     (case ps of None \<Rightarrow> JNull | Some xs \<Rightarrow> JArray (map encode_AnchorPoint xs))"

definition encode_Article :: "ScienceSourceArticle \<Rightarrow> json" where
  "encode_Article a = JObject
     [(''Item'', encode_string (Item_Ar a)),
      (''wikidata'', encode_string (WikiDataItemCode_Ar a)),
      (''title'', encode_string (ArticleTextTitle a)),
      (''publication_date'', encode_string (PublicationDate a)),
      (''time'', encode_string (TimeCode_Ar a)),
      (''character'', encode_int (CharacterNumber_Ar a)),
      (''preceding_phrase'', encode_string (PrecedingPhrase_Ar a)),
      (''following_phrase'', encode_string (FollowingPhrase_Ar a)),
      (''instance_of'', encode_string (InstanceOf_Ar a)),
      (''science_source_title'', encode_string (ScienceSourceArticleTitle_Ar a)),
      (''page_id'', encode_int (PageID a)),
      (''following_anchor'', encode_string (FollowingAnchorPoint_Ar a)),
      (''annotations'', encode_Annotations (Annotations a))]"

subsection \<open>The decoder\<close>

text \<open>
  The decoder stores into an existing value and goes on after a value of the wrong
  kind, which it leaves out: it keeps the first such error (\<^verbatim>\<open>saveError\<close>) and
  returns it at the end. A decoding function takes the JSON value, the Go value stored
  into and the error saved so far, and returns the Go value and the error saved.
\<close>

type_synonym 'a decoder = "json \<Rightarrow> 'a \<Rightarrow> error option \<Rightarrow> 'a \<times> error option"

definition saveError :: "error \<Rightarrow> error option \<Rightarrow> error option" where
  "saveError err saved = (case saved of None \<Rightarrow> Some err | Some e \<Rightarrow> Some e)"

definition decode_string :: "string decoder" where
  "decode_string v cur saved =
     (case v of
        JNull \<Rightarrow> (cur, saved)
      | JString s \<Rightarrow> (s, saved)
      | _ \<Rightarrow> (cur, saveError (UnmarshalTypeError ''string'') saved))"

text \<open>
  An \<^verbatim>\<open>ItemType\<close> is stored as a string is; the error names the field's own type.
\<close>

definition decode_ItemType :: "ItemType decoder" where
  "decode_ItemType v cur saved =
     (case v of
        JNull \<Rightarrow> (cur, saved)
      | JString s \<Rightarrow> (s, saved)
      | _ \<Rightarrow> (cur, saveError (UnmarshalTypeError ''main.ItemType'') saved))"

definition decode_int :: "(64 word) decoder" where
  "decode_int v cur saved =
     (case v of
        JNull \<Rightarrow> (cur, saved)
      | JInt n \<Rightarrow>
          if - (2 ^ 63) \<le> n \<and> n < 2 ^ 63 then (word_of_int n, saved)
          else (cur, saveError (UnmarshalTypeError ''int'') saved)
      | _ \<Rightarrow> (cur, saveError (UnmarshalTypeError ''int'') saved))"

text \<open>
  A key is matched to a field without regard to case. \<^verbatim>\<open>foldName\<close> maps a key to
  the least member of each rune's case-folding class: an ASCII letter to its upper
  case, and of the runes beyond ASCII the two whose class holds an ASCII letter,
  U+017F (C5 BF) to \<open>S\<close> and U+212A (E2 84 AA) to \<open>K\<close>. Every other rune folds to
  bytes outside ASCII, and is left as it is here: a key with one matches no field of
  these structs in either case.
\<close>

definition toUpper :: "char \<Rightarrow> char" where
  "toUpper c =
     (let x = (of_char c :: nat) in if 97 \<le> x \<and> x \<le> 122 then char_of (x - 32) else c)"

fun foldName :: "string \<Rightarrow> string" where
  "foldName [] = []"
| "foldName (c # s) =
     (if c = CHR 0xC5 \<and> take 1 s = [CHR 0xBF] then CHR ''S'' # foldName (drop 1 s)
      else if c = CHR 0xE2 \<and> take 2 s = [CHR 0x84, CHR 0xAA] then CHR ''K'' # foldName (drop 2 s)
      else toUpper c # foldName s)"

declare foldName.simps [simp del]

text \<open>Storing a member's value into the field read by \<open>get\<close> and written by \<open>upd\<close>.\<close>

definition member ::
  "'f decoder \<Rightarrow> json \<Rightarrow> ('r \<Rightarrow> 'f) \<Rightarrow> (('f \<Rightarrow> 'f) \<Rightarrow> 'r \<Rightarrow> 'r) \<Rightarrow> 'r \<Rightarrow> error option \<Rightarrow>
   'r \<times> error option" where
  "member dec v get upd r saved =
     (case dec v (get r) saved of (x, saved') \<Rightarrow> (upd (\<lambda>_. x) r, saved'))"

text \<open>The members of an object, in the order read; a later one overwrites an earlier.\<close>

fun object_members ::
  "(string \<Rightarrow> json \<Rightarrow> 'r \<Rightarrow> error option \<Rightarrow> 'r \<times> error option) \<Rightarrow> (string \<times> json) list \<Rightarrow>
   'r \<Rightarrow> error option \<Rightarrow> 'r \<times> error option" where
  "object_members f [] r saved = (r, saved)"
| "object_members f ((key, v) # kvs) r saved =
     (case f key v r saved of (r', saved') \<Rightarrow> object_members f kvs r' saved')"

definition Annotation_member ::
  "string \<Rightarrow> json \<Rightarrow> ScienceSourceAnnotation \<Rightarrow> error option \<Rightarrow>
   ScienceSourceAnnotation \<times> error option" where
  "Annotation_member key v a saved =
     (let k = foldName key
      in if k = ''ITEM'' then member decode_ItemType v Item_An Item_An_update a saved
         else if k = ''TERM'' then member decode_string v TermFound TermFound_update a saved
         else if k = ''LENGTH'' then
           member decode_int v LengthOfTermFound LengthOfTermFound_update a saved
         else if k = ''WIKIDATA'' then
           member decode_string v WikiDataItemCode_An WikiDataItemCode_An_update a saved
         else if k = ''DICTIONARY'' then
           member decode_string v DictionaryName DictionaryName_update a saved
         else if k = ''TIME'' then member decode_string v TimeCode_An TimeCode_An_update a saved
         else if k = ''INSTANCE_OF'' then
           member decode_string v InstanceOf_An InstanceOf_An_update a saved
         else if k = ''ID'' then
           member decode_string v ScienceSourceItemID_An ScienceSourceItemID_An_update a saved
         else (a, saved))"

definition decode_Annotation :: "ScienceSourceAnnotation decoder" where
  "decode_Annotation v a saved =
     (case v of
        JNull \<Rightarrow> (a, saved)
      | JObject kvs \<Rightarrow> object_members Annotation_member kvs a saved
      | _ \<Rightarrow> (a, saveError (UnmarshalTypeError ''main.ScienceSourceAnnotation'') saved))"

definition AnchorPoint_member ::
  "string \<Rightarrow> json \<Rightarrow> ScienceSourceAnchorPoint \<Rightarrow> error option \<Rightarrow>
   ScienceSourceAnchorPoint \<times> error option" where
  "AnchorPoint_member key v p saved =
     (let k = foldName key
      in if k = ''ITEM'' then member decode_ItemType v Item_AP Item_AP_update p saved
         else if k = ''PRECEDING_PHRASE'' then
           member decode_string v PrecedingPhrase_AP PrecedingPhrase_AP_update p saved
         else if k = ''FOLLOWING_PHRASE'' then
           member decode_string v FollowingPhrase_AP FollowingPhrase_AP_update p saved
         else if k = ''PRECEDING_DISTANCE'' then
           member decode_int v DistanceToPreceding DistanceToPreceding_update p saved
         else if k = ''FOLLOWING_DISTANCE'' then
           member decode_int v DistanceToFollowing DistanceToFollowing_update p saved
         else if k = ''CHARACTER'' then
           member decode_int v CharacterNumber_AP CharacterNumber_AP_update p saved
         else if k = ''TIME'' then member decode_string v TimeCode_AP TimeCode_AP_update p saved
         else if k = ''INSTANCE_OF'' then
           member decode_string v InstanceOf_AP InstanceOf_AP_update p saved
         else if k = ''SCIENCE_SOURCE_TITLE'' then
           member decode_string v ScienceSourceArticleTitle_AP
             ScienceSourceArticleTitle_AP_update p saved
         else if k = ''POINT'' then member decode_string v AnchorPoint AnchorPoint_update p saved
         else if k = ''PRECEDING_ANCHOR'' then
           member decode_string v PrecedingAnchorPoint PrecedingAnchorPoint_update p saved
         else if k = ''FOLLOWING_ANCHOR'' then
           member decode_string v FollowingAnchorPoint_AP FollowingAnchorPoint_AP_update p saved
         else if k = ''ANCHORS'' then member decode_string v Anchors Anchors_update p saved
         else if k = ''ID'' then
           member decode_string v ScienceSourceItemID_AP ScienceSourceItemID_AP_update p saved
         else if k = ''ANNOTATION'' then
           member decode_Annotation v Annotation Annotation_update p saved
         else (p, saved))"

definition decode_AnchorPoint :: "ScienceSourceAnchorPoint decoder" where
  "decode_AnchorPoint v p saved =
     (case v of
        JNull \<Rightarrow> (p, saved)
      | JObject kvs \<Rightarrow> object_members AnchorPoint_member kvs p saved
      | _ \<Rightarrow> (p, saveError (UnmarshalTypeError ''main.ScienceSourceAnchorPoint'') saved))"

text \<open>The zero values of the three structs.\<close>

definition zero_Annotation :: ScienceSourceAnnotation where
  "zero_Annotation =
     \<lparr>Item_An = [], TermFound = [], LengthOfTermFound = 0, WikiDataItemCode_An = [],
      DictionaryName = [], TimeCode_An = [], InstanceOf_An = [], ScienceSourceItemID_An = []\<rparr>"

definition zero_AnchorPoint :: ScienceSourceAnchorPoint where
  "zero_AnchorPoint =
     \<lparr>Item_AP = [], PrecedingPhrase_AP = [], FollowingPhrase_AP = [], DistanceToPreceding = 0,
      DistanceToFollowing = 0, CharacterNumber_AP = 0, TimeCode_AP = [], InstanceOf_AP = [],
      ScienceSourceArticleTitle_AP = [], AnchorPoint = [], PrecedingAnchorPoint = [],
      FollowingAnchorPoint_AP = [], Anchors = [], ScienceSourceItemID_AP = [],
      Annotation = zero_Annotation\<rparr>"

definition zero_Article :: ScienceSourceArticle where
  "zero_Article =
     \<lparr>Item_Ar = [], WikiDataItemCode_Ar = [], ArticleTextTitle = [], PublicationDate = [],
      TimeCode_Ar = [], CharacterNumber_Ar = 0, PrecedingPhrase_Ar = [], FollowingPhrase_Ar = [],
      InstanceOf_Ar = [], ScienceSourceArticleTitle_Ar = [], PageID = 0,
      FollowingAnchorPoint_Ar = [], Annotations = None\<rparr>"

text \<open>
  An array stored into a slice: the i-th value is decoded into the i-th element of the
  slice where the slice has one, and into a new element otherwise, and the slice ends
  up as long as the array. \<open>cur\<close> is what is left of the slice's elements. A new
  element is taken as zero: the spare capacity of a slice is not part of this model.
  \<^verbatim>\<open>null\<close> makes a slice nil, and an empty array makes it empty.
\<close>

fun array_elements ::
  "json list \<Rightarrow> ScienceSourceAnchorPoint list \<Rightarrow> error option \<Rightarrow>
   ScienceSourceAnchorPoint list \<times> error option" where
  "array_elements [] cur saved = ([], saved)"
| "array_elements (v # vs) cur saved =
     (case decode_AnchorPoint v (case cur of [] \<Rightarrow> zero_AnchorPoint | p # _ \<Rightarrow> p) saved of
        (p, saved') \<Rightarrow>
          (case array_elements vs (tl cur) saved' of (ps, saved'') \<Rightarrow> (p # ps, saved'')))"

definition decode_Annotations :: "(ScienceSourceAnchorPoint list option) decoder" where
  "decode_Annotations v cur saved =
     (case v of
        JNull \<Rightarrow> (None, saved)
      | JArray vs \<Rightarrow>
          (case array_elements vs (case cur of None \<Rightarrow> [] | Some ps \<Rightarrow> ps) saved of
             (ps, saved') \<Rightarrow> (Some ps, saved'))
      | _ \<Rightarrow> (cur, saveError (UnmarshalTypeError ''[]main.ScienceSourceAnchorPoint'') saved))"

definition Article_member ::
  "string \<Rightarrow> json \<Rightarrow> ScienceSourceArticle \<Rightarrow> error option \<Rightarrow>
   ScienceSourceArticle \<times> error option" where
  "Article_member key v a saved =
     (let k = foldName key
      in if k = ''ITEM'' then member decode_ItemType v Item_Ar Item_Ar_update a saved
         else if k = ''WIKIDATA'' then
           member decode_string v WikiDataItemCode_Ar WikiDataItemCode_Ar_update a saved
         else if k = ''TITLE'' then
           member decode_string v ArticleTextTitle ArticleTextTitle_update a saved
         else if k = ''PUBLICATION_DATE'' then
           member decode_string v PublicationDate PublicationDate_update a saved
         else if k = ''TIME'' then member decode_string v TimeCode_Ar TimeCode_Ar_update a saved
         else if k = ''CHARACTER'' then
           member decode_int v CharacterNumber_Ar CharacterNumber_Ar_update a saved
         else if k = ''PRECEDING_PHRASE'' then
           member decode_string v PrecedingPhrase_Ar PrecedingPhrase_Ar_update a saved
         else if k = ''FOLLOWING_PHRASE'' then
           member decode_string v FollowingPhrase_Ar FollowingPhrase_Ar_update a saved
         else if k = ''INSTANCE_OF'' then
           member decode_string v InstanceOf_Ar InstanceOf_Ar_update a saved
         else if k = ''SCIENCE_SOURCE_TITLE'' then
           member decode_string v ScienceSourceArticleTitle_Ar
             ScienceSourceArticleTitle_Ar_update a saved
         else if k = ''PAGE_ID'' then member decode_int v PageID PageID_update a saved
         else if k = ''FOLLOWING_ANCHOR'' then
           member decode_string v FollowingAnchorPoint_Ar FollowingAnchorPoint_Ar_update a saved
         else if k = ''ANNOTATIONS'' then
           member decode_Annotations v Annotations Annotations_update a saved
         else (a, saved))"

definition decode_Article :: "ScienceSourceArticle decoder" where
  "decode_Article v a saved =
     (case v of
        JNull \<Rightarrow> (a, saved)
      | JObject kvs \<Rightarrow> object_members Article_member kvs a saved
      | _ \<Rightarrow> (a, saveError (UnmarshalTypeError ''main.ScienceSourceArticle'') saved))"

subsection \<open>The file system, Save and LoadScienceSourceArticle\<close>

text \<open>
  What reading a file gives: no data at all, a complete JSON value first, the start of
  a JSON value cut short by the end of the file, bytes that start no JSON value, or an
  error of the read itself (as for a directory, which can be opened and not read).
\<close>

datatype file_content = NoData | Malformed | Truncated | Unreadable error | Document json

text \<open>
  The ways the operating system can fail otherwise are part of the file system:
  \<open>create_error\<close> is the error of \<^verbatim>\<open>os.Create\<close> on a name, \<open>open_error\<close> that of
  \<^verbatim>\<open>os.Open\<close> on a file that exists, \<open>write_error\<close> that of a write, with what the
  write leaves in the file, and \<open>close_error\<close> that of \<^verbatim>\<open>Close\<close>, which reports a
  failure and leaves the file as the write left it.
\<close>

record filesystem =
  files :: "string \<rightharpoonup> file_content"
  create_error :: "string \<rightharpoonup> error"
  open_error :: "string \<rightharpoonup> error"
  write_error :: "string \<rightharpoonup> error \<times> file_content"
  close_error :: "string \<rightharpoonup> error"

text \<open>\<^verbatim>\<open>os.Create\<close> creates the file, or truncates the one that is there.\<close>

definition os_Create :: "filesystem \<Rightarrow> string \<Rightarrow> error + filesystem" where
  "os_Create fs name =
     (case create_error fs name of
        Some err \<Rightarrow> Inl err
      | None \<Rightarrow> Inr (fs\<lparr>files := (files fs)(name \<mapsto> NoData)\<rparr>))"

definition os_Open :: "filesystem \<Rightarrow> string \<Rightarrow> error + file_content" where
  "os_Open fs name =
     (case open_error fs name of
        Some err \<Rightarrow> Inl err
      | None \<Rightarrow>
          (case files fs name of
             None \<Rightarrow> Inl (PathError ''open'' name)
           | Some content \<Rightarrow> Inr content))"

text \<open>\<^verbatim>\<open>f.Close()\<close>: the error it returns.\<close>

definition Close :: "filesystem \<Rightarrow> string \<Rightarrow> error option" where
  "Close fs name = close_error fs name"

text \<open>
  \<^verbatim>\<open>Encode\<close> on the file created: the value is encoded (no value of these structs
  makes the encoder fail) and written in one write.
\<close>

definition Encode :: "filesystem \<Rightarrow> string \<Rightarrow> ScienceSourceArticle \<Rightarrow> error option \<times> filesystem" where
  "Encode fs name article =
     (case write_error fs name of
        Some (err, left) \<Rightarrow> (Some err, fs\<lparr>files := (files fs)(name \<mapsto> left)\<rparr>)
      | None \<Rightarrow> (None, fs\<lparr>files := (files fs)(name \<mapsto> Document (encode_Article article))\<rparr>))"

text \<open>
  \<^verbatim>\<open>Decode\<close> reads the first JSON value of the file, and stores nothing when it
  cannot read a complete one.
\<close>

definition Decode :: "file_content \<Rightarrow> ScienceSourceArticle \<Rightarrow> ScienceSourceArticle \<times> error option" where
  "Decode content article =
     (case content of
        NoData \<Rightarrow> (article, Some EOF)
      | Malformed \<Rightarrow> (article, Some SyntaxError)
      | Truncated \<Rightarrow> (article, Some ErrUnexpectedEOF)
      | Unreadable err \<Rightarrow> (article, Some err)
      | Document v \<Rightarrow> decode_Article v article None)"

text \<open>
  \<open>Save\<close> has a pointer receiver: the result is the error returned, the article after
  the call and the file system after the call. The deferred \<^verbatim>\<open>f.Close()\<close> of line
  202 runs once the file is created, after \<^verbatim>\<open>Encode\<close>; what it returns is dropped.
\<close>

definition Save ::
  "ScienceSourceArticle \<Rightarrow> string \<Rightarrow> filesystem \<Rightarrow>
   error option \<times> ScienceSourceArticle \<times> filesystem" where
  "Save article filename fs =
     (case os_Create fs filename of
        Inl err \<Rightarrow> (Some err, article, fs)
      | Inr fs' \<Rightarrow>
          (case Encode fs' filename article of
             (err, fs'') \<Rightarrow>
               (let dropped = Close fs'' filename in (err, article, fs''))))"

text \<open>
  The result is the pointer returned (\<open>None\<close> is nil, \<open>Some a\<close> a pointer to \<open>a\<close>) and
  the error returned. The file opened is never closed.
\<close>

definition LoadScienceSourceArticle ::
  "string \<Rightarrow> filesystem \<Rightarrow> ScienceSourceArticle option \<times> error option" where
  "LoadScienceSourceArticle filename fs =
     (case os_Open fs filename of
        Inl err \<Rightarrow> (None, Some err)
      | Inr content \<Rightarrow>
          (case Decode content zero_Article of (article, err) \<Rightarrow> (Some article, err)))"

subsection \<open>What a round trip keeps\<close>

text \<open>
  \<open>coerce_Article\<close> is an article with every string coerced to valid UTF-8, and
  \<open>valid_Article\<close> says that every string of an article is valid UTF-8 already; the
  same for the two nested structs.
\<close>

definition coerce_Annotation :: "ScienceSourceAnnotation \<Rightarrow> ScienceSourceAnnotation" where
  "coerce_Annotation a =
     \<lparr>Item_An = coerce_utf8 (Item_An a), TermFound = coerce_utf8 (TermFound a),
      LengthOfTermFound = LengthOfTermFound a,
      WikiDataItemCode_An = coerce_utf8 (WikiDataItemCode_An a),
      DictionaryName = coerce_utf8 (DictionaryName a), TimeCode_An = coerce_utf8 (TimeCode_An a),
      InstanceOf_An = coerce_utf8 (InstanceOf_An a),
      ScienceSourceItemID_An = coerce_utf8 (ScienceSourceItemID_An a)\<rparr>"

definition coerce_AnchorPoint :: "ScienceSourceAnchorPoint \<Rightarrow> ScienceSourceAnchorPoint" where
  "coerce_AnchorPoint p =
     \<lparr>Item_AP = coerce_utf8 (Item_AP p),
      PrecedingPhrase_AP = coerce_utf8 (PrecedingPhrase_AP p),
      FollowingPhrase_AP = coerce_utf8 (FollowingPhrase_AP p),
      DistanceToPreceding = DistanceToPreceding p,
      DistanceToFollowing = DistanceToFollowing p,
      CharacterNumber_AP = CharacterNumber_AP p,
      TimeCode_AP = coerce_utf8 (TimeCode_AP p),
      InstanceOf_AP = coerce_utf8 (InstanceOf_AP p),
      ScienceSourceArticleTitle_AP = coerce_utf8 (ScienceSourceArticleTitle_AP p),
      AnchorPoint = coerce_utf8 (AnchorPoint p),
      PrecedingAnchorPoint = coerce_utf8 (PrecedingAnchorPoint p),
      FollowingAnchorPoint_AP = coerce_utf8 (FollowingAnchorPoint_AP p),
      Anchors = coerce_utf8 (Anchors p),
      ScienceSourceItemID_AP = coerce_utf8 (ScienceSourceItemID_AP p),
      Annotation = coerce_Annotation (Annotation p)\<rparr>"

definition coerce_Article :: "ScienceSourceArticle \<Rightarrow> ScienceSourceArticle" where
  "coerce_Article a =
     \<lparr>Item_Ar = coerce_utf8 (Item_Ar a),
      WikiDataItemCode_Ar = coerce_utf8 (WikiDataItemCode_Ar a),
      ArticleTextTitle = coerce_utf8 (ArticleTextTitle a),
      PublicationDate = coerce_utf8 (PublicationDate a),
      TimeCode_Ar = coerce_utf8 (TimeCode_Ar a),
      CharacterNumber_Ar = CharacterNumber_Ar a,
      PrecedingPhrase_Ar = coerce_utf8 (PrecedingPhrase_Ar a),
      FollowingPhrase_Ar = coerce_utf8 (FollowingPhrase_Ar a),
      InstanceOf_Ar = coerce_utf8 (InstanceOf_Ar a),
      ScienceSourceArticleTitle_Ar = coerce_utf8 (ScienceSourceArticleTitle_Ar a),
      PageID = PageID a,
      FollowingAnchorPoint_Ar = coerce_utf8 (FollowingAnchorPoint_Ar a),
      Annotations = map_option (map coerce_AnchorPoint) (Annotations a)\<rparr>"

definition valid_Annotation :: "ScienceSourceAnnotation \<Rightarrow> bool" where
  "valid_Annotation a \<longleftrightarrow>
     ValidString (Item_An a) \<and> ValidString (TermFound a) \<and> ValidString (WikiDataItemCode_An a) \<and>
     ValidString (DictionaryName a) \<and> ValidString (TimeCode_An a) \<and>
     ValidString (InstanceOf_An a) \<and> ValidString (ScienceSourceItemID_An a)"

definition valid_AnchorPoint :: "ScienceSourceAnchorPoint \<Rightarrow> bool" where
  "valid_AnchorPoint p \<longleftrightarrow>
     ValidString (Item_AP p) \<and> ValidString (PrecedingPhrase_AP p) \<and>
     ValidString (FollowingPhrase_AP p) \<and> ValidString (TimeCode_AP p) \<and>
     ValidString (InstanceOf_AP p) \<and> ValidString (ScienceSourceArticleTitle_AP p) \<and>
     ValidString (AnchorPoint p) \<and> ValidString (PrecedingAnchorPoint p) \<and>
     ValidString (FollowingAnchorPoint_AP p) \<and> ValidString (Anchors p) \<and>
     ValidString (ScienceSourceItemID_AP p) \<and> valid_Annotation (Annotation p)"

definition valid_Article :: "ScienceSourceArticle \<Rightarrow> bool" where
  "valid_Article a \<longleftrightarrow>
     ValidString (Item_Ar a) \<and> ValidString (WikiDataItemCode_Ar a) \<and>
     ValidString (ArticleTextTitle a) \<and> ValidString (PublicationDate a) \<and>
     ValidString (TimeCode_Ar a) \<and> ValidString (PrecedingPhrase_Ar a) \<and>
     ValidString (FollowingPhrase_Ar a) \<and> ValidString (InstanceOf_Ar a) \<and>
     ValidString (ScienceSourceArticleTitle_Ar a) \<and> ValidString (FollowingAnchorPoint_Ar a) \<and>
     (case Annotations a of None \<Rightarrow> True | Some ps \<Rightarrow> list_all valid_AnchorPoint ps)"

subsection \<open>The linkage of the anchor points\<close>

text \<open>
  Modelled from the spec: the transition to the Linked state, which is not part of
  \<^verbatim>\<open>sciencesource.go\<close>. Every anchor point has its remote id by then. Each sets its
  preceding and following references to the remote ids of its neighbours in document
  order; the first takes the article's leading terminus marker as its preceding
  reference and the last the trailing one as its following reference. \<open>prev\<close> is the
  reference for the anchor point at the head of the list.
\<close>

fun link_chain ::
  "string \<Rightarrow> string \<Rightarrow> ScienceSourceAnchorPoint list \<Rightarrow> ScienceSourceAnchorPoint list" where
  "link_chain prev terminus [] = []"
| "link_chain prev terminus [p] =
     [p\<lparr>PrecedingAnchorPoint := prev, FollowingAnchorPoint_AP := terminus\<rparr>]"
| "link_chain prev terminus (p # q # ps) =
     p\<lparr>PrecedingAnchorPoint := prev, FollowingAnchorPoint_AP := ScienceSourceItemID_AP q\<rparr>
       # link_chain (ScienceSourceItemID_AP p) terminus (q # ps)"

text \<open>
  Modelled from the spec: an article in the Linked state is the article after the
  linkage of its anchor points, between the two terminus markers.
\<close>

definition link_Article :: "string \<Rightarrow> string \<Rightarrow> ScienceSourceArticle \<Rightarrow> ScienceSourceArticle" where
  "link_Article leading trailing article =
     article\<lparr>Annotations := map_option (link_chain leading trailing) (Annotations article)\<rparr>"

subsection \<open>Examples\<close>

text \<open>
  \<open>resolved lookup l\<close> is the id that \<open>lookup\<close> returns for the label \<open>l\<close>, where the
  lookup succeeds.
\<close>

definition resolved :: "(string \<Rightarrow> error + string) \<Rightarrow> string \<Rightarrow> string" where
  "resolved lookup l = (case lookup l of Inr v \<Rightarrow> v | Inl _ \<Rightarrow> [])"

text \<open>
  Three remote stores for the examples: one that resolves every label, one that fails
  on one label, and one that cannot be reached. The two lists are the labels of each
  role in the order the schemas declare them, one of the orders in which
  \<open>getValuesForTags\<close> can return them.
\<close>

definition working_store :: WikiDataClient where
  "working_store =
     \<lparr>GetPropertyForLabel = (\<lambda>l. Inr (''P-'' @ l)),
      GetItemForLabel = (\<lambda>l. Inr (''Q-'' @ l)),
      CreateArticle = (\<lambda>title content. Inr 7)\<rparr>"

definition store_failing_on :: "string \<Rightarrow> WikiDataClient" where
  "store_failing_on label =
     \<lparr>GetPropertyForLabel =
        (\<lambda>l. if l = label then Inl (ClientError ''lookup failed'') else Inr (''P-'' @ l)),
      GetItemForLabel =
        (\<lambda>l. if l = label then Inl (ClientError ''lookup failed'') else Inr (''Q-'' @ l)),
      CreateArticle = (\<lambda>title content. Inl (ClientError ''upload failed''))\<rparr>"

definition unreachable_store :: WikiDataClient where
  "unreachable_store =
     \<lparr>GetPropertyForLabel = (\<lambda>l. Inl (ClientError ''connection refused'')),
      GetItemForLabel = (\<lambda>l. Inl (ClientError ''connection refused'')),
      CreateArticle = (\<lambda>title content. Inl (ClientError ''connection refused''))\<rparr>"

definition property_labels :: "string list" where
  "property_labels =
     [''term found'', ''length of term found'', ''Wikidata item code'',
      ''dictionary name'', ''time code1'', ''instance of'', ''preceding phrase'',
      ''following phrase'', ''distance to preceding'', ''distance to following'',
      ''character number'', ''ScienceSource article title'', ''anchor point in'',
      ''preceding anchor point'', ''following anchor point'', ''anchors'',
      ''article text title'', ''publication date'', ''page ID'']"

definition item_labels :: "string list" where
  "item_labels = [''annotation'', ''anchor point'', ''article'']"

text \<open>
  A file system on which nothing fails and one on which each operation fails for one
  name and one name cannot be read; a way of reading files that knows one file; an article of three anchor points
  whose strings are valid UTF-8, the same anchor points once linked, and an article
  whose title is the single byte FF, which is not valid UTF-8.
\<close>

definition empty_filesystem :: filesystem where
  "empty_filesystem =
     \<lparr>files = Map.empty, create_error = Map.empty, open_error = Map.empty,
      write_error = Map.empty, close_error = Map.empty\<rparr>"

definition example_annotation :: ScienceSourceAnnotation where
  "example_annotation =
     \<lparr>Item_An = [], TermFound = ''malaria'', LengthOfTermFound = 7,
      WikiDataItemCode_An = ''Q12156'', DictionaryName = ''disease'',
      TimeCode_An = ''2018-06-01'', InstanceOf_An = [], ScienceSourceItemID_An = []\<rparr>"

definition example_anchor :: "string \<Rightarrow> ScienceSourceAnchorPoint" where
  "example_anchor item_id =
     \<lparr>Item_AP = [], PrecedingPhrase_AP = ''cases of '', FollowingPhrase_AP = '' in'',
      DistanceToPreceding = 12, DistanceToFollowing = - 1, CharacterNumber_AP = 340,
      TimeCode_AP = ''2018-06-01'', InstanceOf_AP = [], ScienceSourceArticleTitle_AP = [],
      AnchorPoint = [], PrecedingAnchorPoint = [], FollowingAnchorPoint_AP = [], Anchors = [],
      ScienceSourceItemID_AP = item_id, Annotation = example_annotation\<rparr>"

definition example_article :: ScienceSourceArticle where
  "example_article =
     \<lparr>Item_Ar = [], WikiDataItemCode_Ar = ''Q56'', ArticleTextTitle = [CHR ''R'', CHR 0xC3, CHR 0xA9],
      PublicationDate = ''2018'', TimeCode_Ar = ''2018-06-01'', CharacterNumber_Ar = 0,
      PrecedingPhrase_Ar = [], FollowingPhrase_Ar = [], InstanceOf_Ar = [],
      ScienceSourceArticleTitle_Ar = ''PMC1'', PageID = 42, FollowingAnchorPoint_Ar = [],
      Annotations = Some [example_anchor ''Q1'', example_anchor ''Q2'', example_anchor ''Q3'']\<rparr>"

definition invalid_utf8_article :: ScienceSourceArticle where
  "invalid_utf8_article = zero_Article\<lparr>ArticleTextTitle := [CHR 0xFF]\<rparr>"


definition example_ReadFile :: "string \<Rightarrow> error + string" where
  "example_ReadFile name =
     (if name = ''paper.html'' then Inr ''<html></html>'' else Inl (PathError ''open'' name))"

definition linked_example :: "ScienceSourceAnchorPoint list" where
  "linked_example =
     [(example_anchor ''Q1'')\<lparr>PrecedingAnchorPoint := ''Q-start'', FollowingAnchorPoint_AP := ''Q2''\<rparr>,
      (example_anchor ''Q2'')\<lparr>PrecedingAnchorPoint := ''Q1'', FollowingAnchorPoint_AP := ''Q3''\<rparr>,
      (example_anchor ''Q3'')\<lparr>PrecedingAnchorPoint := ''Q2'', FollowingAnchorPoint_AP := ''Q-end''\<rparr>]"

section \<open>Properties\<close>

subsection \<open>The tag registry\<close>

lemma field_loop_distinct:
  "distinct (map fst tagset) \<Longrightarrow> distinct (map fst (field_loop tagname fs tagset))"
  by (induction fs arbitrary: tagset) (simp_all add: Let_def distinct_update)

lemma types_loop_distinct:
  "distinct (map fst tagset) \<Longrightarrow> distinct (map fst (types_loop tagname ts tagset))"
  by (induction ts arbitrary: tagset) (simp_all add: field_loop_distinct)

lemma field_loop_keys:
  "fst ` set (field_loop tagname fs tagset) =
     fst ` set tagset \<union> {tag. tag \<noteq> [] \<and> (\<exists>f \<in> set fs. tag = Get (Tag f) tagname)}"
  by (induction fs arbitrary: tagset) (auto simp add: Let_def dom_update)

lemma types_loop_keys:
  "fst ` set (types_loop tagname ts tagset) =
     fst ` set tagset \<union> {tag. tag \<noteq> [] \<and> (\<exists>t \<in> set ts. \<exists>f \<in> set t. tag = Get (Tag f) tagname)}"
  by (induction ts arbitrary: tagset) (auto simp add: field_loop_keys)

lemma range_keys_distinct: "range_keys m ks \<Longrightarrow> distinct ks = distinct (map fst m)"
  unfolding range_keys_def by (rule mset_eq_imp_distinct_iff)

lemma range_keys_set: "range_keys m ks \<Longrightarrow> set ks = fst ` set m"
  unfolding range_keys_def by (metis set_mset_mset set_map)

lemma range_keys_total: "range_keys m (map fst m)"
  by (simp add: range_keys_def)

lemma getValuesForTags_of_total: "\<exists>list. getValuesForTags_of ts tagname list"
  unfolding getValuesForTags_of_def using range_keys_total by blast

lemma getValuesForTags_of_distinct:
  "getValuesForTags_of ts tagname list \<Longrightarrow> distinct list"
  unfolding getValuesForTags_of_def
  by (simp add: range_keys_distinct types_loop_distinct)

lemma getValuesForTags_of_set:
  "getValuesForTags_of ts tagname list \<Longrightarrow>
   set list = {tag. tag \<noteq> [] \<and> (\<exists>t \<in> set ts. \<exists>f \<in> set t. tag = Get (Tag f) tagname)}"
  unfolding getValuesForTags_of_def
  by (simp add: range_keys_set types_loop_keys)

lemma types_item:
  "types_loop ''item'' types [] =
     [(''annotation'', True), (''anchor point'', True), (''article'', True)]"
  by code_simp

lemma types_xml: "types_loop ''xml'' types [] = []"
  by code_simp

text \<open>
  C4. For every tag name the list returned by \<open>getValuesForTags\<close> over the three
  schemas exists and has no duplicate, however often a label is declared; the same
  holds over any set of schemas, and where no field carries the tag the list returned
  is empty.
\<close>

theorem getValuesForTags_no_duplicates:
  "(\<exists>list. getValuesForTags tagname list) \<and>
   (\<forall>list. getValuesForTags tagname list \<longrightarrow> distinct list) \<and>
   (\<forall>ts. \<exists>list. getValuesForTags_of ts tagname list) \<and>
   (\<forall>ts list. getValuesForTags_of ts tagname list \<longrightarrow>
      distinct list \<and>
      ((\<forall>t \<in> set ts. \<forall>f \<in> set t. Get (Tag f) tagname = []) \<longrightarrow> list = []))"
proof -
  have "list = []"
    if "getValuesForTags_of ts tagname list"
      and "\<forall>t \<in> set ts. \<forall>f \<in> set t. Get (Tag f) tagname = []" for ts list
  proof -
    have "set list = {}"
      using getValuesForTags_of_set [OF that(1)] that(2) by auto
    then show ?thesis by simp
  qed
  then show ?thesis
    unfolding getValuesForTags_def
    using getValuesForTags_of_total getValuesForTags_of_distinct by blast
qed

theorem getValuesForTags_no_duplicates_witness:
  "getValuesForTags ''item'' [''article'', ''annotation'', ''anchor point''] \<and>
   distinct [''article'', ''annotation'', ''anchor point''] \<and>
   list_all (list_all (\<lambda>f. Get (Tag f) ''xml'' = [])) types \<and>
   getValuesForTags_of types ''xml'' [] \<and>
   \<not> getValuesForTags_of types ''xml'' [''json'']"
proof -
  have a: "getValuesForTags ''item'' [''article'', ''annotation'', ''anchor point'']"
    by (simp add: getValuesForTags_def getValuesForTags_of_def range_keys_def types_item)
  have b: "list_all (list_all (\<lambda>f. Get (Tag f) ''xml'' = [])) types"
    by (simp add: types_def TypeOf_ScienceSourceAnnotation_def
        TypeOf_ScienceSourceAnchorPoint_def TypeOf_ScienceSourceArticle_def fld_def Get_def)
  then have b': "\<forall>t \<in> set types. \<forall>f \<in> set t. Get (Tag f) ''xml'' = []"
    by (simp add: list_all_iff)
  have c: "getValuesForTags_of types ''xml'' []"
    by (simp add: getValuesForTags_of_def range_keys_def types_xml)
  have d: "\<not> getValuesForTags_of types ''xml'' [''json'']"
    using b' getValuesForTags_no_duplicates [of "''xml''"] by blast
  show ?thesis
    using a b c d getValuesForTags_no_duplicates [of "''item''"] by blast
qed

text \<open>
  C9. No string in the list returned by \<open>getValuesForTags\<close> is empty: the list holds
  exactly the non-empty values that the fields of the three schemas give for the tag.
\<close>

theorem getValuesForTags_nonempty_labels:
  "getValuesForTags tagname list \<Longrightarrow>
   [] \<notin> set list \<and>
   set list = {tag. tag \<noteq> [] \<and> (\<exists>t \<in> set types. \<exists>f \<in> set t. tag = Get (Tag f) tagname)}"
  unfolding getValuesForTags_def using getValuesForTags_of_set by blast

theorem getValuesForTags_nonempty_labels_witness:
  "getValuesForTags ''item'' [''anchor point'', ''article'', ''annotation''] \<and>
   [] \<notin> set [''anchor point'', ''article'', ''annotation'']"
proof -
  have a: "getValuesForTags ''item'' [''anchor point'', ''article'', ''annotation'']"
    by (simp add: getValuesForTags_def getValuesForTags_of_def range_keys_def types_item)
  show ?thesis
    using a getValuesForTags_nonempty_labels [OF a] by blast
qed

subsection \<open>The label resolver\<close>

lemma map_upds_resolved:
  "(m(xs [\<mapsto>] map g xs)) x = (if x \<in> set xs then Some (g x) else m x)"
  by (induction xs arbitrary: m) auto

lemma property_loop_ok:
  "\<forall>i \<in> set list. \<exists>v. GetPropertyForLabel w i = Inr v \<Longrightarrow>
   property_loop w list c sent =
     (None,
      c\<lparr>PropertyMap := (PropertyMap c)(list [\<mapsto>] map (resolved (GetPropertyForLabel w)) list)\<rparr>,
      sent @ map PropertyLookup list)"
  by (induction list arbitrary: c sent) (auto simp: resolved_def)

lemma if_upd: "(\<lambda>b. if b = a then x else m b) = m(a := x)"
  by (rule ext) simp

lemma property_loop_fail:
  "\<forall>i \<in> set pre. \<exists>v. GetPropertyForLabel w i = Inr v \<Longrightarrow>
   GetPropertyForLabel w l = Inl err \<Longrightarrow>
   property_loop w (pre @ l # post) c sent =
     (Some err,
      c\<lparr>PropertyMap := (PropertyMap c)(pre [\<mapsto>] map (resolved (GetPropertyForLabel w)) pre)\<rparr>,
      sent @ map PropertyLookup (pre @ [l]))"
proof (induction pre arbitrary: c sent)
  case Nil
  then show ?case by simp
next
  case (Cons a pre)
  from Cons.prems(1) obtain v where v: "GetPropertyForLabel w a = Inr v" by auto
  from Cons.prems(1) have rest: "\<forall>i \<in> set pre. \<exists>v. GetPropertyForLabel w i = Inr v" by simp
  have r: "resolved (GetPropertyForLabel w) a = v" by (simp add: resolved_def v)
  show ?case
    by (simp add: v r Cons.IH [OF rest Cons.prems(2)] if_upd)
qed

lemma item_loop_ok:
  "\<forall>i \<in> set list. \<exists>v. GetItemForLabel w i = Inr v \<Longrightarrow>
   item_loop w list c sent =
     (None,
      c\<lparr>ItemMap := (ItemMap c)(list [\<mapsto>] map (resolved (GetItemForLabel w)) list)\<rparr>,
      sent @ map ItemLookup list)"
  by (induction list arbitrary: c sent) (auto simp: resolved_def)

lemma item_loop_fail:
  "\<forall>i \<in> set pre. \<exists>v. GetItemForLabel w i = Inr v \<Longrightarrow>
   GetItemForLabel w l = Inl err \<Longrightarrow>
   item_loop w (pre @ l # post) c sent =
     (Some err,
      c\<lparr>ItemMap := (ItemMap c)(pre [\<mapsto>] map (resolved (GetItemForLabel w)) pre)\<rparr>,
      sent @ map ItemLookup (pre @ [l]))"
proof (induction pre arbitrary: c sent)
  case Nil
  then show ?case by simp
next
  case (Cons a pre)
  from Cons.prems(1) obtain v where v: "GetItemForLabel w a = Inr v" by auto
  from Cons.prems(1) have rest: "\<forall>i \<in> set pre. \<exists>v. GetItemForLabel w i = Inr v" by simp
  have r: "resolved (GetItemForLabel w) a = v" by (simp add: resolved_def v)
  show ?case
    by (simp add: v r Cons.IH [OF rest Cons.prems(2)] if_upd)
qed

lemma first_failure:
  assumes "\<exists>i \<in> set list. \<exists>e. lookup i = Inl e"
  shows "\<exists>pre l post err. list = pre @ l # post \<and> lookup l = Inl err \<and>
           (\<forall>i \<in> set pre. \<exists>v. lookup i = Inr v)"
proof -
  from split_list_first_prop [OF assms]
  obtain pre l post where *: "list = pre @ l # post" "\<exists>e. lookup l = Inl e"
    "\<forall>i \<in> set pre. \<not> (\<exists>e. lookup i = Inl e)"
    by blast
  have "\<exists>v. lookup i = Inr v" if "i \<in> set pre" for i
    using *(3) that by (cases "lookup i") auto
  with * show ?thesis by blast
qed

lemma all_or_first_failure:
  "(\<forall>i \<in> set list. \<exists>v. lookup i = Inr v) \<or>
   (\<exists>pre l post err. list = pre @ l # post \<and> lookup l = Inl err \<and>
           (\<forall>i \<in> set pre. \<exists>v. lookup i = Inr v))"
proof (cases "\<exists>i \<in> set list. \<exists>e. lookup i = Inl e")
  case True
  then show ?thesis using first_failure [of list lookup] by blast
next
  case False
  have "\<exists>v. lookup i = Inr v" if "i \<in> set list" for i
    using False that by (cases "lookup i") auto
  then show ?thesis by blast
qed

lemma Get_property_failure:
  assumes "\<forall>i \<in> set pre. \<exists>v. GetPropertyForLabel w i = Inr v"
    and "GetPropertyForLabel w l = Inl err"
  shows "GetPropertyAndItemConfigurationFromServer w (pre @ l # post) ilist c =
     (Some err,
      c\<lparr>PropertyMap := (PropertyMap c)(pre [\<mapsto>] map (resolved (GetPropertyForLabel w)) pre)\<rparr>,
      map PropertyLookup (pre @ [l]))"
  by (simp add: GetPropertyAndItemConfigurationFromServer_def property_loop_fail [OF assms])

lemma Get_item_failure:
  assumes "\<forall>i \<in> set plist. \<exists>v. GetPropertyForLabel w i = Inr v"
    and "\<forall>i \<in> set pre. \<exists>v. GetItemForLabel w i = Inr v"
    and "GetItemForLabel w l = Inl err"
  shows "GetPropertyAndItemConfigurationFromServer w plist (pre @ l # post) c =
     (Some err,
      c\<lparr>PropertyMap := (PropertyMap c)(plist [\<mapsto>] map (resolved (GetPropertyForLabel w)) plist),
        ItemMap := (ItemMap c)(pre [\<mapsto>] map (resolved (GetItemForLabel w)) pre)\<rparr>,
      map PropertyLookup plist @ map ItemLookup (pre @ [l]))"
  by (simp add: GetPropertyAndItemConfigurationFromServer_def property_loop_ok [OF assms(1)]
      item_loop_fail [OF assms(2,3)])

lemma Get_success:
  assumes "\<forall>i \<in> set plist. \<exists>v. GetPropertyForLabel w i = Inr v"
    and "\<forall>i \<in> set ilist. \<exists>v. GetItemForLabel w i = Inr v"
  shows "GetPropertyAndItemConfigurationFromServer w plist ilist c =
     (None,
      c\<lparr>PropertyMap := (PropertyMap c)(plist [\<mapsto>] map (resolved (GetPropertyForLabel w)) plist),
        ItemMap := (ItemMap c)(ilist [\<mapsto>] map (resolved (GetItemForLabel w)) ilist)\<rparr>,
      map PropertyLookup plist @ map ItemLookup ilist)"
  by (simp add: GetPropertyAndItemConfigurationFromServer_def property_loop_ok [OF assms(1)]
      item_loop_ok [OF assms(2)])

lemma first_failure_index:
  assumes "n < length list" and "lookup (list ! n) = Inl e"
  shows "\<exists>k err. k \<le> n \<and> lookup (list ! k) = Inl err \<and>
           (\<forall>i \<in> set (take k list). \<exists>v. lookup i = Inr v)"
proof -
  have "list ! n \<in> set list" using assms(1) by simp
  with assms(2) have "\<exists>i \<in> set list. \<exists>e. lookup i = Inl e" by (intro bexI exI)
  from first_failure [of list lookup, OF this]
  obtain pre l post err where *: "list = pre @ l # post" "lookup l = Inl err"
    "\<forall>i \<in> set pre. \<exists>v. lookup i = Inr v"
    by (elim exE conjE)
  have "length pre \<le> n"
  proof (rule ccontr)
    assume "\<not> length pre \<le> n"
    then have "n < length pre" by simp
    then have "list ! n \<in> set pre" using *(1) by (simp add: nth_append)
    with *(3) have "\<exists>v. lookup (list ! n) = Inr v" by (rule bspec)
    then obtain v where "lookup (list ! n) = Inr v" by (rule exE)
    with assms(2) show False by simp
  qed
  moreover have "lookup (list ! length pre) = Inl err" using *(1,2) by simp
  moreover have "\<forall>i \<in> set (take (length pre) list). \<exists>v. lookup i = Inr v"
    using *(1,3) by simp
  ultimately have "length pre \<le> n \<and> lookup (list ! length pre) = Inl err \<and>
      (\<forall>i \<in> set (take (length pre) list). \<exists>v. lookup i = Inr v)"
    by (intro conjI)
  then show ?thesis by (intro exI)
qed

lemma all_or_first_failure_index:
  "(\<forall>i \<in> set list. \<exists>v. lookup i = Inr v) \<or>
   (\<exists>k err. k < length list \<and> lookup (list ! k) = Inl err \<and>
           (\<forall>i \<in> set (take k list). \<exists>v. lookup i = Inr v))"
proof (cases "\<forall>i \<in> set list. \<exists>v. lookup i = Inr v")
  case True
  then show ?thesis by (rule disjI1)
next
  case False
  then obtain i where i: "i \<in> set list" "\<not> (\<exists>v. lookup i = Inr v)"
    by auto
  from i(1) obtain n where n: "n < length list" "list ! n = i"
    by (auto simp: in_set_conv_nth)
  from i(2) obtain e where "lookup i = Inl e" by (cases "lookup i") simp_all
  with n have "lookup (list ! n) = Inl e" by simp
  from first_failure_index [of n list lookup e, OF n(1) this]
  obtain k err where k: "k \<le> n" "lookup (list ! k) = Inl err"
    "\<forall>i \<in> set (take k list). \<exists>v. lookup i = Inr v"
    by (elim exE conjE)
  from k(1) n(1) have "k < length list" by simp
  with k(2,3) have "k < length list \<and> lookup (list ! k) = Inl err \<and>
      (\<forall>i \<in> set (take k list). \<exists>v. lookup i = Inr v)"
    by (intro conjI)
  then have "\<exists>k err. k < length list \<and> lookup (list ! k) = Inl err \<and>
           (\<forall>i \<in> set (take k list). \<exists>v. lookup i = Inr v)"
    by (intro exI)
  then show ?thesis by (rule disjI2)
qed

lemma Get_property_failure_index:
  assumes "k < length plist"
    and "\<forall>i \<in> set (take k plist). \<exists>v. GetPropertyForLabel w i = Inr v"
    and "GetPropertyForLabel w (plist ! k) = Inl err"
  shows "GetPropertyAndItemConfigurationFromServer w plist ilist c =
     (Some err,
      c\<lparr>PropertyMap :=
          (PropertyMap c)(take k plist [\<mapsto>] map (resolved (GetPropertyForLabel w)) (take k plist))\<rparr>,
      map PropertyLookup (take (Suc k) plist))"
proof -
  have "plist = take k plist @ plist ! k # drop (Suc k) plist"
    using assms(1) by (rule id_take_nth_drop)
  then have "GetPropertyAndItemConfigurationFromServer w plist ilist c =
      GetPropertyAndItemConfigurationFromServer w
        (take k plist @ plist ! k # drop (Suc k) plist) ilist c"
    by simp
  also have "\<dots> = (Some err,
      c\<lparr>PropertyMap :=
          (PropertyMap c)(take k plist [\<mapsto>] map (resolved (GetPropertyForLabel w)) (take k plist))\<rparr>,
      map PropertyLookup (take k plist @ [plist ! k]))"
    by (rule Get_property_failure [OF assms(2,3)])
  finally show ?thesis
    using assms(1) by (simp add: take_Suc_conv_app_nth)
qed

lemma Get_item_failure_index:
  assumes "\<forall>i \<in> set plist. \<exists>v. GetPropertyForLabel w i = Inr v"
    and "k < length ilist"
    and "\<forall>i \<in> set (take k ilist). \<exists>v. GetItemForLabel w i = Inr v"
    and "GetItemForLabel w (ilist ! k) = Inl err"
  shows "GetPropertyAndItemConfigurationFromServer w plist ilist c =
     (Some err,
      c\<lparr>PropertyMap := (PropertyMap c)(plist [\<mapsto>] map (resolved (GetPropertyForLabel w)) plist),
        ItemMap :=
          (ItemMap c)(take k ilist [\<mapsto>] map (resolved (GetItemForLabel w)) (take k ilist))\<rparr>,
      map PropertyLookup plist @ map ItemLookup (take (Suc k) ilist))"
proof -
  have "ilist = take k ilist @ ilist ! k # drop (Suc k) ilist"
    using assms(2) by (rule id_take_nth_drop)
  then have "GetPropertyAndItemConfigurationFromServer w plist ilist c =
      GetPropertyAndItemConfigurationFromServer w plist
        (take k ilist @ ilist ! k # drop (Suc k) ilist) c"
    by simp
  also have "\<dots> = (Some err,
      c\<lparr>PropertyMap := (PropertyMap c)(plist [\<mapsto>] map (resolved (GetPropertyForLabel w)) plist),
        ItemMap :=
          (ItemMap c)(take k ilist [\<mapsto>] map (resolved (GetItemForLabel w)) (take k ilist))\<rparr>,
      map PropertyLookup plist @ map ItemLookup (take k ilist @ [ilist ! k]))"
    by (rule Get_item_failure [OF assms(1,3,4)])
  finally show ?thesis
    using assms(2) by (simp add: take_Suc_conv_app_nth)
qed

text \<open>Every call goes one of three ways.\<close>

lemma run_cases:
  obtains
    (property_failure) k err where
      "k < length plist" "GetPropertyForLabel w (plist ! k) = Inl err"
      "\<forall>i \<in> set (take k plist). \<exists>v. GetPropertyForLabel w i = Inr v"
      "GetPropertyAndItemConfigurationFromServer w plist ilist c =
         (Some err,
          c\<lparr>PropertyMap :=
              (PropertyMap c)(take k plist [\<mapsto>] map (resolved (GetPropertyForLabel w)) (take k plist))\<rparr>,
          map PropertyLookup (take (Suc k) plist))"
  | (item_failure) k err where
      "\<forall>i \<in> set plist. \<exists>v. GetPropertyForLabel w i = Inr v"
      "k < length ilist" "GetItemForLabel w (ilist ! k) = Inl err"
      "\<forall>i \<in> set (take k ilist). \<exists>v. GetItemForLabel w i = Inr v"
      "GetPropertyAndItemConfigurationFromServer w plist ilist c =
         (Some err,
          c\<lparr>PropertyMap := (PropertyMap c)(plist [\<mapsto>] map (resolved (GetPropertyForLabel w)) plist),
            ItemMap :=
              (ItemMap c)(take k ilist [\<mapsto>] map (resolved (GetItemForLabel w)) (take k ilist))\<rparr>,
          map PropertyLookup plist @ map ItemLookup (take (Suc k) ilist))"
  | (success)
      "\<forall>i \<in> set plist. \<exists>v. GetPropertyForLabel w i = Inr v"
      "\<forall>i \<in> set ilist. \<exists>v. GetItemForLabel w i = Inr v"
      "GetPropertyAndItemConfigurationFromServer w plist ilist c =
         (None,
          c\<lparr>PropertyMap := (PropertyMap c)(plist [\<mapsto>] map (resolved (GetPropertyForLabel w)) plist),
            ItemMap := (ItemMap c)(ilist [\<mapsto>] map (resolved (GetItemForLabel w)) ilist)\<rparr>,
          map PropertyLookup plist @ map ItemLookup ilist)"
proof -
  from all_or_first_failure_index [of plist "GetPropertyForLabel w"]
  show thesis
  proof (elim disjE exE conjE)
    fix k err
    assume k: "k < length plist" "GetPropertyForLabel w (plist ! k) = Inl err"
      "\<forall>i \<in> set (take k plist). \<exists>v. GetPropertyForLabel w i = Inr v"
    show thesis
      by (rule property_failure [OF k Get_property_failure_index [OF k(1,3,2)]])
  next
    assume ok: "\<forall>i \<in> set plist. \<exists>v. GetPropertyForLabel w i = Inr v"
    from all_or_first_failure_index [of ilist "GetItemForLabel w"]
    show thesis
    proof (elim disjE exE conjE)
      fix k err
      assume k: "k < length ilist" "GetItemForLabel w (ilist ! k) = Inl err"
        "\<forall>i \<in> set (take k ilist). \<exists>v. GetItemForLabel w i = Inr v"
      show thesis
        by (rule item_failure [OF ok k Get_item_failure_index [OF ok k(1,3,2)]])
    next
      assume ok': "\<forall>i \<in> set ilist. \<exists>v. GetItemForLabel w i = Inr v"
      show thesis
        by (rule success [OF ok ok' Get_success [OF ok ok']])
    qed
  qed
qed

lemma resolved_entries:
  assumes "\<forall>i \<in> set xs. \<exists>v. lookup i = Inr v"
    and "m' = m(xs [\<mapsto>] map (resolved lookup) xs)"
  shows "\<forall>l. (l \<in> set xs \<longrightarrow> (\<exists>v. lookup l = Inr v \<and> m' l = Some v)) \<and>
             (l \<notin> set xs \<longrightarrow> m' l = m l)"
proof (intro allI conjI impI)
  fix l assume l: "l \<in> set xs"
  with assms(1) have "\<exists>v. lookup l = Inr v" by (rule bspec)
  then obtain v where v: "lookup l = Inr v" by (rule exE)
  then have "resolved lookup l = v" by (simp add: resolved_def)
  with l have "m' l = Some v" by (simp add: assms(2) map_upds_resolved)
  with v show "\<exists>v. lookup l = Inr v \<and> m' l = Some v" by simp
next
  fix l assume "l \<notin> set xs"
  then show "m' l = m l" by (simp add: assms(2) map_upds_resolved)
qed

text \<open>The runs of the examples.\<close>

lemma types_item_keys: "map fst (types_loop ''item'' types []) = item_labels"
  unfolding item_labels_def by code_simp

lemma types_property_keys: "map fst (types_loop ''property'' types []) = property_labels"
  unfolding property_labels_def by code_simp

lemma getValuesForTags_property_labels: "getValuesForTags ''property'' property_labels"
  by (simp add: getValuesForTags_def getValuesForTags_of_def range_keys_def types_property_keys)

lemma getValuesForTags_rev_property_labels: "getValuesForTags ''property'' (rev property_labels)"
  by (simp add: getValuesForTags_def getValuesForTags_of_def range_keys_def types_property_keys)

lemma getValuesForTags_item_labels: "getValuesForTags ''item'' item_labels"
  by (simp add: getValuesForTags_def getValuesForTags_of_def range_keys_def types_item_keys)

lemma run_failing_dictionary_name:
  "GetPropertyAndItemConfigurationFromServer (store_failing_on ''dictionary name'')
     property_labels item_labels NewScienceSourceClient =
   (Some (ClientError ''lookup failed''),
    \<lparr>PropertyMap = [''term found'' \<mapsto> ''P-term found'',
        ''length of term found'' \<mapsto> ''P-length of term found'',
        ''Wikidata item code'' \<mapsto> ''P-Wikidata item code''],
     ItemMap = Map.empty\<rparr>,
    [PropertyLookup ''term found'', PropertyLookup ''length of term found'',
     PropertyLookup ''Wikidata item code'', PropertyLookup ''dictionary name''])"
  by (simp add: GetPropertyAndItemConfigurationFromServer_def store_failing_on_def
      property_labels_def NewScienceSourceClient_def)

lemma run_failing_anchor_point:
  "GetPropertyAndItemConfigurationFromServer (store_failing_on ''anchor point'')
     property_labels item_labels NewScienceSourceClient =
   (Some (ClientError ''lookup failed''),
    NewScienceSourceClient
      \<lparr>PropertyMap := (PropertyMap NewScienceSourceClient)
         (property_labels [\<mapsto>]
          map (resolved (GetPropertyForLabel (store_failing_on ''anchor point''))) property_labels),
       ItemMap := (ItemMap NewScienceSourceClient)
         (take 1 item_labels [\<mapsto>]
          map (resolved (GetItemForLabel (store_failing_on ''anchor point''))) (take 1 item_labels))\<rparr>,
    map PropertyLookup property_labels @ map ItemLookup (take (Suc 1) item_labels))"
proof -
  have ok: "\<forall>i \<in> set property_labels.
      \<exists>v. GetPropertyForLabel (store_failing_on ''anchor point'') i = Inr v"
    by (simp add: store_failing_on_def property_labels_def)
  have k: "1 < length item_labels" by (simp add: item_labels_def)
  have pre: "\<forall>i \<in> set (take 1 item_labels).
      \<exists>v. GetItemForLabel (store_failing_on ''anchor point'') i = Inr v"
    by (simp add: store_failing_on_def item_labels_def)
  have bad: "GetItemForLabel (store_failing_on ''anchor point'') (item_labels ! 1) =
      Inl (ClientError ''lookup failed'')"
    by (simp add: store_failing_on_def item_labels_def)
  show ?thesis
    by (rule Get_item_failure_index [OF ok k pre bad])
qed

lemma run_working:
  "GetPropertyAndItemConfigurationFromServer working_store
     property_labels item_labels NewScienceSourceClient =
   (None,
    NewScienceSourceClient
      \<lparr>PropertyMap := (PropertyMap NewScienceSourceClient)
         (property_labels [\<mapsto>]
          map (resolved (GetPropertyForLabel working_store)) property_labels),
       ItemMap := (ItemMap NewScienceSourceClient)
         (item_labels [\<mapsto>] map (resolved (GetItemForLabel working_store)) item_labels)\<rparr>,
    map PropertyLookup property_labels @ map ItemLookup item_labels)"
proof -
  have p: "\<forall>i \<in> set property_labels. \<exists>v. GetPropertyForLabel working_store i = Inr v"
    by (simp add: working_store_def)
  have i: "\<forall>i \<in> set item_labels. \<exists>v. GetItemForLabel working_store i = Inr v"
    by (simp add: working_store_def)
  show ?thesis by (rule Get_success [OF p i])
qed

text \<open>
  C2, as amended. Whatever lookup fails, the call returns an error, and that error is
  the one returned by the first lookup that failed, at or before the failing one; the
  requests sent are the lookups up to and including that first failure and nothing
  after it. When a property lookup fails no item lookup is sent. The error is the
  store client's own: the call adds nothing to it.
\<close>

theorem resolution_fails_fast:
  assumes run: "GetPropertyAndItemConfigurationFromServer w plist ilist c = (r, c', sent)"
  shows
    "(n < length plist \<and> GetPropertyForLabel w (plist ! n) = Inl e \<longrightarrow>
        (\<exists>k err. k \<le> n \<and> GetPropertyForLabel w (plist ! k) = Inl err \<and> r = Some err \<and>
           sent = map PropertyLookup (take (Suc k) plist))) \<and>
     ((\<forall>i \<in> set plist. \<exists>v. GetPropertyForLabel w i = Inr v) \<and>
      n < length ilist \<and> GetItemForLabel w (ilist ! n) = Inl e \<longrightarrow>
        (\<exists>k err. k \<le> n \<and> GetItemForLabel w (ilist ! k) = Inl err \<and> r = Some err \<and>
           sent = map PropertyLookup plist @ map ItemLookup (take (Suc k) ilist)))"
proof (intro conjI impI)
  assume a: "n < length plist \<and> GetPropertyForLabel w (plist ! n) = Inl e"
  then have a1: "n < length plist" and a2: "GetPropertyForLabel w (plist ! n) = Inl e"
    by simp_all
  from first_failure_index [of n plist "GetPropertyForLabel w" e, OF a1 a2]
  obtain k err where k: "k \<le> n" "GetPropertyForLabel w (plist ! k) = Inl err"
    "\<forall>i \<in> set (take k plist). \<exists>v. GetPropertyForLabel w i = Inr v"
    by (elim exE conjE)
  from a1 k(1) have kl: "k < length plist" by simp
  have "(r, c', sent) =
     (Some err,
      c\<lparr>PropertyMap :=
          (PropertyMap c)(take k plist [\<mapsto>] map (resolved (GetPropertyForLabel w)) (take k plist))\<rparr>,
      map PropertyLookup (take (Suc k) plist))"
    unfolding run [symmetric] by (rule Get_property_failure_index [OF kl k(3,2)])
  then have "r = Some err" "sent = map PropertyLookup (take (Suc k) plist)" by simp_all
  with k(1,2) have "k \<le> n \<and> GetPropertyForLabel w (plist ! k) = Inl err \<and> r = Some err \<and>
           sent = map PropertyLookup (take (Suc k) plist)"
    by (intro conjI)
  then show "\<exists>k err. k \<le> n \<and> GetPropertyForLabel w (plist ! k) = Inl err \<and> r = Some err \<and>
           sent = map PropertyLookup (take (Suc k) plist)"
    by (intro exI)
next
  assume a: "(\<forall>i \<in> set plist. \<exists>v. GetPropertyForLabel w i = Inr v) \<and>
      n < length ilist \<and> GetItemForLabel w (ilist ! n) = Inl e"
  then have ok: "\<forall>i \<in> set plist. \<exists>v. GetPropertyForLabel w i = Inr v"
    and a1: "n < length ilist" and a2: "GetItemForLabel w (ilist ! n) = Inl e"
    by simp_all
  from first_failure_index [of n ilist "GetItemForLabel w" e, OF a1 a2]
  obtain k err where k: "k \<le> n" "GetItemForLabel w (ilist ! k) = Inl err"
    "\<forall>i \<in> set (take k ilist). \<exists>v. GetItemForLabel w i = Inr v"
    by (elim exE conjE)
  from a1 k(1) have kl: "k < length ilist" by simp
  have "(r, c', sent) =
     (Some err,
      c\<lparr>PropertyMap := (PropertyMap c)(plist [\<mapsto>] map (resolved (GetPropertyForLabel w)) plist),
        ItemMap :=
          (ItemMap c)(take k ilist [\<mapsto>] map (resolved (GetItemForLabel w)) (take k ilist))\<rparr>,
      map PropertyLookup plist @ map ItemLookup (take (Suc k) ilist))"
    unfolding run [symmetric] by (rule Get_item_failure_index [OF ok kl k(3,2)])
  then have "r = Some err"
    "sent = map PropertyLookup plist @ map ItemLookup (take (Suc k) ilist)"
    by simp_all
  with k(1,2) have "k \<le> n \<and> GetItemForLabel w (ilist ! k) = Inl err \<and> r = Some err \<and>
           sent = map PropertyLookup plist @ map ItemLookup (take (Suc k) ilist)"
    by (intro conjI)
  then show "\<exists>k err. k \<le> n \<and> GetItemForLabel w (ilist ! k) = Inl err \<and> r = Some err \<and>
           sent = map PropertyLookup plist @ map ItemLookup (take (Suc k) ilist)"
    by (intro exI)
qed

theorem resolution_fails_fast_witness:
  "GetPropertyAndItemConfigurationFromServer (store_failing_on ''dictionary name'')
     property_labels item_labels NewScienceSourceClient =
   (Some (ClientError ''lookup failed''),
    \<lparr>PropertyMap = [''term found'' \<mapsto> ''P-term found'',
        ''length of term found'' \<mapsto> ''P-length of term found'',
        ''Wikidata item code'' \<mapsto> ''P-Wikidata item code''],
     ItemMap = Map.empty\<rparr>,
    [PropertyLookup ''term found'', PropertyLookup ''length of term found'',
     PropertyLookup ''Wikidata item code'', PropertyLookup ''dictionary name'']) \<and>
   3 < length property_labels \<and>
   GetPropertyForLabel (store_failing_on ''dictionary name'') (property_labels ! 3) =
     Inl (ClientError ''lookup failed'') \<and>
   (\<exists>k. k \<le> 3 \<and>
      [PropertyLookup ''term found'', PropertyLookup ''length of term found'',
       PropertyLookup ''Wikidata item code'', PropertyLookup ''dictionary name''] =
      map PropertyLookup (take (Suc k) property_labels)) \<and>
   list_all (\<lambda>i. \<exists>v. GetPropertyForLabel (store_failing_on ''anchor point'') i = Inr v)
     property_labels \<and>
   1 < length item_labels \<and>
   GetItemForLabel (store_failing_on ''anchor point'') (item_labels ! 1) =
     Inl (ClientError ''lookup failed'') \<and>
   (\<exists>k. k \<le> 1 \<and>
      map PropertyLookup property_labels @ map ItemLookup (take (Suc 1) item_labels) =
      map PropertyLookup property_labels @ map ItemLookup (take (Suc k) item_labels))"
proof -
  have a1: "3 < length property_labels" by (simp add: property_labels_def)
  have a2: "GetPropertyForLabel (store_failing_on ''dictionary name'') (property_labels ! 3) =
     Inl (ClientError ''lookup failed'')"
    by (simp add: store_failing_on_def property_labels_def)
  have b0: "list_all (\<lambda>i. \<exists>v. GetPropertyForLabel (store_failing_on ''anchor point'') i = Inr v)
     property_labels"
    by (simp add: store_failing_on_def property_labels_def)
  then have b0': "\<forall>i \<in> set property_labels.
      \<exists>v. GetPropertyForLabel (store_failing_on ''anchor point'') i = Inr v"
    by (simp add: list_all_iff)
  have b1: "1 < length item_labels" by (simp add: item_labels_def)
  have b2: "GetItemForLabel (store_failing_on ''anchor point'') (item_labels ! 1) =
     Inl (ClientError ''lookup failed'')"
    by (simp add: store_failing_on_def item_labels_def)
  note t1 = resolution_fails_fast [OF run_failing_dictionary_name,
      of 3 "ClientError ''lookup failed''", THEN conjunct1, THEN mp, OF conjI [OF a1 a2]]
  then obtain k where "k \<le> 3 \<and>
      [PropertyLookup ''term found'', PropertyLookup ''length of term found'',
       PropertyLookup ''Wikidata item code'', PropertyLookup ''dictionary name''] =
      map PropertyLookup (take (Suc k) property_labels)"
    by (elim exE conjE) (rule that, rule conjI)
  then have c1: "\<exists>k. k \<le> 3 \<and>
      [PropertyLookup ''term found'', PropertyLookup ''length of term found'',
       PropertyLookup ''Wikidata item code'', PropertyLookup ''dictionary name''] =
      map PropertyLookup (take (Suc k) property_labels)"
    by (rule exI)
  note t2 = resolution_fails_fast [OF run_failing_anchor_point,
      of 1 "ClientError ''lookup failed''", THEN conjunct2, THEN mp,
      OF conjI [OF b0' conjI [OF b1 b2]]]
  then obtain k where "k \<le> 1 \<and>
      map PropertyLookup property_labels @ map ItemLookup (take (Suc 1) item_labels) =
      map PropertyLookup property_labels @ map ItemLookup (take (Suc k) item_labels)"
    by (elim exE conjE) (rule that, rule conjI)
  then have c2: "\<exists>k. k \<le> 1 \<and>
      map PropertyLookup property_labels @ map ItemLookup (take (Suc 1) item_labels) =
      map PropertyLookup property_labels @ map ItemLookup (take (Suc k) item_labels)"
    by (rule exI)
  from run_failing_dictionary_name a1 a2 c1 b0 b1 b2 c2 show ?thesis by (intro conjI)
qed

text \<open>
  The claim as stated fails where the store's error does not name the label: against
  a store that cannot be reached, the call returns the same error whether the failing
  label is \<open>term found\<close> or \<open>page ID\<close>.
\<close>

theorem resolution_error_label_counterexample:
  "getValuesForTags ''property'' property_labels \<and>
   getValuesForTags ''property'' (rev property_labels) \<and>
   GetPropertyAndItemConfigurationFromServer unreachable_store
     property_labels item_labels NewScienceSourceClient =
   (Some (ClientError ''connection refused''), NewScienceSourceClient,
    [PropertyLookup ''term found'']) \<and>
   GetPropertyAndItemConfigurationFromServer unreachable_store
     (rev property_labels) item_labels NewScienceSourceClient =
   (Some (ClientError ''connection refused''), NewScienceSourceClient,
    [PropertyLookup ''page ID''])"
proof -
  have a: "GetPropertyAndItemConfigurationFromServer unreachable_store
     property_labels item_labels NewScienceSourceClient =
   (Some (ClientError ''connection refused''), NewScienceSourceClient,
    [PropertyLookup ''term found''])"
    by (simp add: GetPropertyAndItemConfigurationFromServer_def unreachable_store_def
        property_labels_def)
  have b: "GetPropertyAndItemConfigurationFromServer unreachable_store
     (rev property_labels) item_labels NewScienceSourceClient =
   (Some (ClientError ''connection refused''), NewScienceSourceClient,
    [PropertyLookup ''page ID''])"
    by (simp add: GetPropertyAndItemConfigurationFromServer_def unreachable_store_def
        property_labels_def)
  from getValuesForTags_property_labels getValuesForTags_rev_property_labels a b
  show ?thesis by (intro conjI)
qed

text \<open>
  C3, as amended. When the call returns an error, the two maps are as they were
  before the call except at the labels resolved before the failing lookup, which hold
  the ids resolved: no entry is written for the failing label or for a label after it,
  and the item map is untouched when the failure is in the property pass.
\<close>

theorem resolution_error_keeps_earlier_entries:
  assumes run: "GetPropertyAndItemConfigurationFromServer w plist ilist c = (Some err, c', sent)"
  shows
    "(\<exists>k. k < length plist \<and> GetPropertyForLabel w (plist ! k) = Inl err \<and>
        ItemMap c' = ItemMap c \<and>
        (\<forall>l. (l \<in> set (take k plist) \<longrightarrow>
                (\<exists>v. GetPropertyForLabel w l = Inr v \<and> PropertyMap c' l = Some v)) \<and>
             (l \<notin> set (take k plist) \<longrightarrow> PropertyMap c' l = PropertyMap c l))) \<or>
     (\<exists>k. k < length ilist \<and> GetItemForLabel w (ilist ! k) = Inl err \<and>
        (\<forall>l. (l \<in> set plist \<longrightarrow>
                (\<exists>v. GetPropertyForLabel w l = Inr v \<and> PropertyMap c' l = Some v)) \<and>
             (l \<notin> set plist \<longrightarrow> PropertyMap c' l = PropertyMap c l)) \<and>
        (\<forall>l. (l \<in> set (take k ilist) \<longrightarrow>
                (\<exists>v. GetItemForLabel w l = Inr v \<and> ItemMap c' l = Some v)) \<and>
             (l \<notin> set (take k ilist) \<longrightarrow> ItemMap c' l = ItemMap c l)))"
proof (cases rule: run_cases [of plist w ilist c])
  case (property_failure k e)
  from property_failure(4) run have e: "err = e"
    and pm: "PropertyMap c' =
      (PropertyMap c)(take k plist [\<mapsto>] map (resolved (GetPropertyForLabel w)) (take k plist))"
    and im: "ItemMap c' = ItemMap c"
    by auto
  note resolved_entries [OF property_failure(3) pm]
  with property_failure(1,2) e im show ?thesis by (intro disjI1 exI [of _ k]) simp
next
  case (item_failure k e)
  from item_failure(5) run have e: "err = e"
    and pm: "PropertyMap c' =
      (PropertyMap c)(plist [\<mapsto>] map (resolved (GetPropertyForLabel w)) plist)"
    and im: "ItemMap c' =
      (ItemMap c)(take k ilist [\<mapsto>] map (resolved (GetItemForLabel w)) (take k ilist))"
    by auto
  note resolved_entries [OF item_failure(1) pm] resolved_entries [OF item_failure(4) im]
  with item_failure(2,3) e show ?thesis by (intro disjI2 exI [of _ k]) simp
next
  case success
  with run show ?thesis by simp
qed

theorem resolution_error_keeps_earlier_entries_witness:
  "GetPropertyAndItemConfigurationFromServer (store_failing_on ''dictionary name'')
     property_labels item_labels NewScienceSourceClient =
   (Some (ClientError ''lookup failed''),
    \<lparr>PropertyMap = [''term found'' \<mapsto> ''P-term found'',
        ''length of term found'' \<mapsto> ''P-length of term found'',
        ''Wikidata item code'' \<mapsto> ''P-Wikidata item code''],
     ItemMap = Map.empty\<rparr>,
    [PropertyLookup ''term found'', PropertyLookup ''length of term found'',
     PropertyLookup ''Wikidata item code'', PropertyLookup ''dictionary name'']) \<and>
   ((\<exists>k. k < length property_labels \<and>
        GetPropertyForLabel (store_failing_on ''dictionary name'') (property_labels ! k) =
          Inl (ClientError ''lookup failed'')) \<or>
    (\<exists>k. k < length item_labels \<and>
        GetItemForLabel (store_failing_on ''dictionary name'') (item_labels ! k) =
          Inl (ClientError ''lookup failed'')))"
  using resolution_error_keeps_earlier_entries [OF run_failing_dictionary_name]
    run_failing_dictionary_name
  by blast

text \<open>
  The claim as stated fails: a failure on \<open>dictionary name\<close> leaves in the property
  map the entries of the three labels resolved before it.
\<close>

theorem resolution_partial_map_counterexample:
  "getValuesForTags ''property'' property_labels \<and>
   getValuesForTags ''item'' item_labels \<and>
   fst (GetPropertyAndItemConfigurationFromServer (store_failing_on ''dictionary name'')
     property_labels item_labels NewScienceSourceClient) = Some (ClientError ''lookup failed'') \<and>
   PropertyMap NewScienceSourceClient ''term found'' = None \<and>
   PropertyMap (fst (snd (GetPropertyAndItemConfigurationFromServer
     (store_failing_on ''dictionary name'') property_labels item_labels NewScienceSourceClient)))
     ''term found'' = Some ''P-term found''"
proof -
  have "PropertyMap NewScienceSourceClient ''term found'' = None"
    by (simp add: NewScienceSourceClient_def)
  then show ?thesis
    by (simp add: run_failing_dictionary_name getValuesForTags_property_labels
        getValuesForTags_item_labels)
qed

text \<open>
  C5. When the call returns nil, every label returned for the property role has an
  entry in the property map and every label returned for the item role one in the item
  map, each the id that its lookup returned; a map holds one entry for a key. The
  labels are the distinct non-empty tags of the schemas, and one request was sent for
  each.
\<close>

theorem resolution_success_complete:
  assumes "getValuesForTags ''property'' plist" and "getValuesForTags ''item'' ilist"
    and run: "GetPropertyAndItemConfigurationFromServer w plist ilist c = (None, c', sent)"
  shows
    "(\<forall>l \<in> set plist. \<exists>v. GetPropertyForLabel w l = Inr v \<and> PropertyMap c' l = Some v) \<and>
     (\<forall>l \<in> set ilist. \<exists>v. GetItemForLabel w l = Inr v \<and> ItemMap c' l = Some v) \<and>
     set plist =
       {tag. tag \<noteq> [] \<and> (\<exists>t \<in> set types. \<exists>f \<in> set t. tag = Get (Tag f) ''property'')} \<and>
     set ilist =
       {tag. tag \<noteq> [] \<and> (\<exists>t \<in> set types. \<exists>f \<in> set t. tag = Get (Tag f) ''item'')} \<and>
     distinct plist \<and> distinct ilist \<and>
     sent = map PropertyLookup plist @ map ItemLookup ilist"
proof (cases rule: run_cases [of plist w ilist c])
  case (property_failure k e)
  with run show ?thesis by simp
next
  case (item_failure k e)
  with run show ?thesis by simp
next
  case success
  from success(3) run have
    pm: "PropertyMap c' =
      (PropertyMap c)(plist [\<mapsto>] map (resolved (GetPropertyForLabel w)) plist)"
    and im: "ItemMap c' = (ItemMap c)(ilist [\<mapsto>] map (resolved (GetItemForLabel w)) ilist)"
    and s: "sent = map PropertyLookup plist @ map ItemLookup ilist"
    by auto
  have p: "\<forall>l \<in> set plist. \<exists>v. GetPropertyForLabel w l = Inr v \<and> PropertyMap c' l = Some v"
    using resolved_entries [OF success(1) pm] by simp
  have i: "\<forall>l \<in> set ilist. \<exists>v. GetItemForLabel w l = Inr v \<and> ItemMap c' l = Some v"
    using resolved_entries [OF success(2) im] by simp
  have sp: "set plist =
       {tag. tag \<noteq> [] \<and> (\<exists>t \<in> set types. \<exists>f \<in> set t. tag = Get (Tag f) ''property'')}"
    using assms(1) unfolding getValuesForTags_def by (rule getValuesForTags_of_set)
  have si: "set ilist =
       {tag. tag \<noteq> [] \<and> (\<exists>t \<in> set types. \<exists>f \<in> set t. tag = Get (Tag f) ''item'')}"
    using assms(2) unfolding getValuesForTags_def by (rule getValuesForTags_of_set)
  have dp: "distinct plist"
    using assms(1) unfolding getValuesForTags_def by (rule getValuesForTags_of_distinct)
  have di: "distinct ilist"
    using assms(2) unfolding getValuesForTags_def by (rule getValuesForTags_of_distinct)
  from p i sp si dp di s show ?thesis by (intro conjI)
qed

theorem resolution_success_complete_witness:
  "getValuesForTags ''property'' property_labels \<and>
   getValuesForTags ''item'' item_labels \<and>
   fst (GetPropertyAndItemConfigurationFromServer working_store
     property_labels item_labels NewScienceSourceClient) = None \<and>
   PropertyMap (fst (snd (GetPropertyAndItemConfigurationFromServer working_store
     property_labels item_labels NewScienceSourceClient))) ''page ID'' = Some ''P-page ID'' \<and>
   ItemMap (fst (snd (GetPropertyAndItemConfigurationFromServer working_store
     property_labels item_labels NewScienceSourceClient))) ''article'' = Some ''Q-article''"
proof -
  have r: "GetPropertyAndItemConfigurationFromServer working_store
     property_labels item_labels NewScienceSourceClient =
     (None,
      fst (snd (GetPropertyAndItemConfigurationFromServer
        working_store property_labels item_labels NewScienceSourceClient)),
      snd (snd (GetPropertyAndItemConfigurationFromServer
        working_store property_labels item_labels NewScienceSourceClient)))"
    by (simp add: run_working)
  note t = resolution_success_complete [OF getValuesForTags_property_labels
      getValuesForTags_item_labels r]
  have "''page ID'' \<in> set property_labels" by (simp add: property_labels_def)
  with t [THEN conjunct1]
  have "\<exists>v. GetPropertyForLabel working_store ''page ID'' = Inr v \<and>
      PropertyMap (fst (snd (GetPropertyAndItemConfigurationFromServer working_store
        property_labels item_labels NewScienceSourceClient))) ''page ID'' = Some v"
    by (rule bspec)
  then have p: "PropertyMap (fst (snd (GetPropertyAndItemConfigurationFromServer working_store
     property_labels item_labels NewScienceSourceClient))) ''page ID'' = Some ''P-page ID''"
    by (auto simp: working_store_def)
  have "''article'' \<in> set item_labels" by (simp add: item_labels_def)
  with t [THEN conjunct2, THEN conjunct1]
  have "\<exists>v. GetItemForLabel working_store ''article'' = Inr v \<and>
      ItemMap (fst (snd (GetPropertyAndItemConfigurationFromServer working_store
        property_labels item_labels NewScienceSourceClient))) ''article'' = Some v"
    by (rule bspec)
  then have i: "ItemMap (fst (snd (GetPropertyAndItemConfigurationFromServer working_store
     property_labels item_labels NewScienceSourceClient))) ''article'' = Some ''Q-article''"
    by (auto simp: working_store_def)
  have n: "fst (GetPropertyAndItemConfigurationFromServer working_store
     property_labels item_labels NewScienceSourceClient) = None"
    by (simp add: run_working)
  from getValuesForTags_property_labels getValuesForTags_item_labels n p i
  show ?thesis by (intro conjI)
qed

text \<open>
  C10. A failure of a property lookup leaves the item map as it was and sends no item
  lookup; and whenever the item map has changed or an item lookup was sent, every
  property lookup had succeeded and the property lookups were all sent first.
\<close>

theorem ItemMap_written_after_property_pass:
  assumes run: "GetPropertyAndItemConfigurationFromServer w plist ilist c = (r, c', sent)"
  shows
    "((\<exists>i \<in> set plist. \<exists>e. GetPropertyForLabel w i = Inl e) \<longrightarrow>
        ItemMap c' = ItemMap c \<and> (\<forall>l. ItemLookup l \<notin> set sent)) \<and>
     (ItemMap c' \<noteq> ItemMap c \<or> (\<exists>l. ItemLookup l \<in> set sent) \<longrightarrow>
        (\<forall>i \<in> set plist. \<exists>v. GetPropertyForLabel w i = Inr v) \<and>
        take (length plist) sent = map PropertyLookup plist)"
proof (cases rule: run_cases [of plist w ilist c])
  case (property_failure k e)
  from property_failure(4) run have im: "ItemMap c' = ItemMap c"
    and s: "sent = map PropertyLookup (take (Suc k) plist)"
    by auto
  from s have "\<forall>l. ItemLookup l \<notin> set sent" by auto
  with im show ?thesis by simp
next
  case (item_failure k e)
  from item_failure(5) run
  have s: "sent = map PropertyLookup plist @ map ItemLookup (take (Suc k) ilist)"
    by auto
  then have "take (length plist) sent = map PropertyLookup plist" by simp
  moreover have "\<not> (\<exists>i \<in> set plist. \<exists>e. GetPropertyForLabel w i = Inl e)"
    using item_failure(1) by auto
  ultimately show ?thesis using item_failure(1) by simp
next
  case success
  from success(3) run
  have s: "sent = map PropertyLookup plist @ map ItemLookup ilist"
    by auto
  then have "take (length plist) sent = map PropertyLookup plist" by simp
  moreover have "\<not> (\<exists>i \<in> set plist. \<exists>e. GetPropertyForLabel w i = Inl e)"
    using success(1) by auto
  ultimately show ?thesis using success(1) by simp
qed

theorem ItemMap_written_after_property_pass_witness:
  "GetPropertyForLabel (store_failing_on ''dictionary name'') ''dictionary name'' =
     Inl (ClientError ''lookup failed'') \<and>
   ''dictionary name'' \<in> set property_labels \<and>
   ItemMap (fst (snd (GetPropertyAndItemConfigurationFromServer
     (store_failing_on ''dictionary name'') property_labels item_labels NewScienceSourceClient))) =
   ItemMap NewScienceSourceClient \<and>
   ItemLookup ''article'' \<in> set (snd (snd (GetPropertyAndItemConfigurationFromServer
     working_store property_labels item_labels NewScienceSourceClient))) \<and>
   take (length property_labels) (snd (snd (GetPropertyAndItemConfigurationFromServer
     working_store property_labels item_labels NewScienceSourceClient))) =
   map PropertyLookup property_labels"
proof -
  have a1: "GetPropertyForLabel (store_failing_on ''dictionary name'') ''dictionary name'' =
     Inl (ClientError ''lookup failed'')"
    by (simp add: store_failing_on_def)
  have a2: "''dictionary name'' \<in> set property_labels" by (simp add: property_labels_def)
  from a1 a2 have a: "\<exists>i \<in> set property_labels.
      \<exists>e. GetPropertyForLabel (store_failing_on ''dictionary name'') i = Inl e"
    by (intro bexI exI)
  have r1: "GetPropertyAndItemConfigurationFromServer
     (store_failing_on ''dictionary name'') property_labels item_labels NewScienceSourceClient =
     (fst (GetPropertyAndItemConfigurationFromServer
        (store_failing_on ''dictionary name'') property_labels item_labels NewScienceSourceClient),
      fst (snd (GetPropertyAndItemConfigurationFromServer
        (store_failing_on ''dictionary name'') property_labels item_labels NewScienceSourceClient)),
      snd (snd (GetPropertyAndItemConfigurationFromServer
        (store_failing_on ''dictionary name'') property_labels item_labels NewScienceSourceClient)))"
    by simp
  note t1 = ItemMap_written_after_property_pass [OF r1, THEN conjunct1, THEN mp, OF a,
      THEN conjunct1]
  have b: "ItemLookup ''article'' \<in> set (snd (snd (GetPropertyAndItemConfigurationFromServer
     working_store property_labels item_labels NewScienceSourceClient)))"
  proof -
    have "ItemLookup ''article'' \<in> set (map ItemLookup item_labels)"
      by (simp add: item_labels_def)
    then show ?thesis by (simp add: run_working)
  qed
  have r2: "GetPropertyAndItemConfigurationFromServer
     working_store property_labels item_labels NewScienceSourceClient =
     (fst (GetPropertyAndItemConfigurationFromServer
        working_store property_labels item_labels NewScienceSourceClient),
      fst (snd (GetPropertyAndItemConfigurationFromServer
        working_store property_labels item_labels NewScienceSourceClient)),
      snd (snd (GetPropertyAndItemConfigurationFromServer
        working_store property_labels item_labels NewScienceSourceClient)))"
    by simp
  from b have b': "ItemMap (fst (snd (GetPropertyAndItemConfigurationFromServer
        working_store property_labels item_labels NewScienceSourceClient))) \<noteq>
      ItemMap NewScienceSourceClient \<or>
      (\<exists>l. ItemLookup l \<in> set (snd (snd (GetPropertyAndItemConfigurationFromServer
     working_store property_labels item_labels NewScienceSourceClient))))"
    by (intro disjI2 exI)
  note t2 = ItemMap_written_after_property_pass [OF r2, THEN conjunct2, THEN mp, OF b',
      THEN conjunct2]
  from a1 a2 t1 b t2 show ?thesis by (intro conjI)
qed

subsection \<open>The JSON codec\<close>

lemma coerce_utf8_valid: "ValidString s \<Longrightarrow> coerce_utf8 s = s"
proof (induction s rule: coerce_utf8.induct)
  case 1
  then show ?case by simp
next
  case (2 c s)
  then show ?case
    by (cases "DecodeRuneInString (c # s)") (simp_all del: append_take_drop_id add: append_take_drop_id [of _ "c # s"])
qed

lemma decode_encode_string: "decode_string (encode_string s) cur saved = (coerce_utf8 s, saved)"
  by (simp add: decode_string_def encode_string_def)

lemma decode_encode_ItemType:
  "decode_ItemType (encode_string s) cur saved = (coerce_utf8 s, saved)"
  by (simp add: decode_ItemType_def encode_string_def)

lemma decode_encode_int: "decode_int (encode_int n) cur saved = (n, saved)"
proof -
  have "- (2 ^ 63) \<le> sint n" "sint n < 2 ^ 63"
    using sint_ge [of n] sint_lt [of n] by simp_all
  then show ?thesis
    by (simp add: decode_int_def encode_int_def)
qed

lemma foldName_keys:
  "foldName ''Item'' = ''ITEM''"
  "foldName ''term'' = ''TERM''"
  "foldName ''length'' = ''LENGTH''"
  "foldName ''wikidata'' = ''WIKIDATA''"
  "foldName ''dictionary'' = ''DICTIONARY''"
  "foldName ''time'' = ''TIME''"
  "foldName ''instance_of'' = ''INSTANCE_OF''"
  "foldName ''id'' = ''ID''"
  "foldName ''preceding_phrase'' = ''PRECEDING_PHRASE''"
  "foldName ''following_phrase'' = ''FOLLOWING_PHRASE''"
  "foldName ''preceding_distance'' = ''PRECEDING_DISTANCE''"
  "foldName ''following_distance'' = ''FOLLOWING_DISTANCE''"
  "foldName ''character'' = ''CHARACTER''"
  "foldName ''science_source_title'' = ''SCIENCE_SOURCE_TITLE''"
  "foldName ''point'' = ''POINT''"
  "foldName ''preceding_anchor'' = ''PRECEDING_ANCHOR''"
  "foldName ''following_anchor'' = ''FOLLOWING_ANCHOR''"
  "foldName ''anchors'' = ''ANCHORS''"
  "foldName ''annotation'' = ''ANNOTATION''"
  "foldName ''title'' = ''TITLE''"
  "foldName ''publication_date'' = ''PUBLICATION_DATE''"
  "foldName ''page_id'' = ''PAGE_ID''"
  "foldName ''annotations'' = ''ANNOTATIONS''"
  by code_simp+

lemma member_string:
  "member decode_string (encode_string s) get upd r saved = (upd (\<lambda>_. coerce_utf8 s) r, saved)"
  by (simp add: member_def decode_encode_string)

lemma member_ItemType:
  "member decode_ItemType (encode_string s) get upd r saved =
     (upd (\<lambda>_. coerce_utf8 s) r, saved)"
  by (simp add: member_def decode_encode_ItemType)

lemma member_int:
  "member decode_int (encode_int n) get upd r saved = (upd (\<lambda>_. n) r, saved)"
  by (simp add: member_def decode_encode_int)

lemma Annotation_member_keys:
  "Annotation_member ''Item'' v a s = member decode_ItemType v Item_An Item_An_update a s"
  "Annotation_member ''term'' v a s = member decode_string v TermFound TermFound_update a s"
  "Annotation_member ''length'' v a s =
     member decode_int v LengthOfTermFound LengthOfTermFound_update a s"
  "Annotation_member ''wikidata'' v a s =
     member decode_string v WikiDataItemCode_An WikiDataItemCode_An_update a s"
  "Annotation_member ''dictionary'' v a s =
     member decode_string v DictionaryName DictionaryName_update a s"
  "Annotation_member ''time'' v a s = member decode_string v TimeCode_An TimeCode_An_update a s"
  "Annotation_member ''instance_of'' v a s =
     member decode_string v InstanceOf_An InstanceOf_An_update a s"
  "Annotation_member ''id'' v a s =
     member decode_string v ScienceSourceItemID_An ScienceSourceItemID_An_update a s"
  by (simp_all add: Annotation_member_def foldName_keys Let_def)

lemma decode_encode_Annotation:
  "decode_Annotation (encode_Annotation a) a0 saved = (coerce_Annotation a, saved)"
  by (cases a0)
    (simp add: decode_Annotation_def encode_Annotation_def Annotation_member_keys
      member_string member_ItemType member_int coerce_Annotation_def)

lemma AnchorPoint_member_keys:
  "AnchorPoint_member ''Item'' v p s = member decode_ItemType v Item_AP Item_AP_update p s"
  "AnchorPoint_member ''preceding_phrase'' v p s =
     member decode_string v PrecedingPhrase_AP PrecedingPhrase_AP_update p s"
  "AnchorPoint_member ''following_phrase'' v p s =
     member decode_string v FollowingPhrase_AP FollowingPhrase_AP_update p s"
  "AnchorPoint_member ''preceding_distance'' v p s =
     member decode_int v DistanceToPreceding DistanceToPreceding_update p s"
  "AnchorPoint_member ''following_distance'' v p s =
     member decode_int v DistanceToFollowing DistanceToFollowing_update p s"
  "AnchorPoint_member ''character'' v p s =
     member decode_int v CharacterNumber_AP CharacterNumber_AP_update p s"
  "AnchorPoint_member ''time'' v p s = member decode_string v TimeCode_AP TimeCode_AP_update p s"
  "AnchorPoint_member ''instance_of'' v p s =
     member decode_string v InstanceOf_AP InstanceOf_AP_update p s"
  "AnchorPoint_member ''science_source_title'' v p s =
     member decode_string v ScienceSourceArticleTitle_AP ScienceSourceArticleTitle_AP_update p s"
  "AnchorPoint_member ''point'' v p s = member decode_string v AnchorPoint AnchorPoint_update p s"
  "AnchorPoint_member ''preceding_anchor'' v p s =
     member decode_string v PrecedingAnchorPoint PrecedingAnchorPoint_update p s"
  "AnchorPoint_member ''following_anchor'' v p s =
     member decode_string v FollowingAnchorPoint_AP FollowingAnchorPoint_AP_update p s"
  "AnchorPoint_member ''anchors'' v p s = member decode_string v Anchors Anchors_update p s"
  "AnchorPoint_member ''id'' v p s =
     member decode_string v ScienceSourceItemID_AP ScienceSourceItemID_AP_update p s"
  "AnchorPoint_member ''annotation'' v p s =
     member decode_Annotation v Annotation Annotation_update p s"
  by (simp_all add: AnchorPoint_member_def foldName_keys Let_def)

lemma member_Annotation:
  "member decode_Annotation (encode_Annotation a) get upd r saved =
     (upd (\<lambda>_. coerce_Annotation a) r, saved)"
  by (simp add: member_def decode_encode_Annotation)

lemma decode_encode_AnchorPoint:
  "decode_AnchorPoint (encode_AnchorPoint p) p0 saved = (coerce_AnchorPoint p, saved)"
  by (cases p0)
    (simp add: decode_AnchorPoint_def encode_AnchorPoint_def AnchorPoint_member_keys
      member_string member_ItemType member_int member_Annotation coerce_AnchorPoint_def)

lemma array_elements_encode:
  "array_elements (map encode_AnchorPoint ps) cur saved = (map coerce_AnchorPoint ps, saved)"
  by (induction ps arbitrary: cur) (simp_all add: decode_encode_AnchorPoint)

lemma decode_encode_Annotations:
  "decode_Annotations (encode_Annotations ps) cur saved =
     (map_option (map coerce_AnchorPoint) ps, saved)"
  by (cases ps) (simp_all add: decode_Annotations_def encode_Annotations_def array_elements_encode)

lemma member_Annotations:
  "member decode_Annotations (encode_Annotations ps) get upd r saved =
     (upd (\<lambda>_. map_option (map coerce_AnchorPoint) ps) r, saved)"
  by (simp add: member_def decode_encode_Annotations)

lemma Article_member_keys:
  "Article_member ''Item'' v a s = member decode_ItemType v Item_Ar Item_Ar_update a s"
  "Article_member ''wikidata'' v a s =
     member decode_string v WikiDataItemCode_Ar WikiDataItemCode_Ar_update a s"
  "Article_member ''title'' v a s =
     member decode_string v ArticleTextTitle ArticleTextTitle_update a s"
  "Article_member ''publication_date'' v a s =
     member decode_string v PublicationDate PublicationDate_update a s"
  "Article_member ''time'' v a s = member decode_string v TimeCode_Ar TimeCode_Ar_update a s"
  "Article_member ''character'' v a s =
     member decode_int v CharacterNumber_Ar CharacterNumber_Ar_update a s"
  "Article_member ''preceding_phrase'' v a s =
     member decode_string v PrecedingPhrase_Ar PrecedingPhrase_Ar_update a s"
  "Article_member ''following_phrase'' v a s =
     member decode_string v FollowingPhrase_Ar FollowingPhrase_Ar_update a s"
  "Article_member ''instance_of'' v a s =
     member decode_string v InstanceOf_Ar InstanceOf_Ar_update a s"
  "Article_member ''science_source_title'' v a s =
     member decode_string v ScienceSourceArticleTitle_Ar ScienceSourceArticleTitle_Ar_update a s"
  "Article_member ''page_id'' v a s = member decode_int v PageID PageID_update a s"
  "Article_member ''following_anchor'' v a s =
     member decode_string v FollowingAnchorPoint_Ar FollowingAnchorPoint_Ar_update a s"
  "Article_member ''annotations'' v a s =
     member decode_Annotations v Annotations Annotations_update a s"
  by (simp_all add: Article_member_def foldName_keys Let_def)

lemma decode_encode_Article:
  "decode_Article (encode_Article a) a0 saved = (coerce_Article a, saved)"
  by (cases a0)
    (simp add: decode_Article_def encode_Article_def Article_member_keys
      member_string member_ItemType member_int member_Annotations coerce_Article_def)

lemma coerce_Annotation_valid: "valid_Annotation a \<Longrightarrow> coerce_Annotation a = a"
  by (simp add: valid_Annotation_def coerce_Annotation_def coerce_utf8_valid)

lemma coerce_AnchorPoint_valid: "valid_AnchorPoint p \<Longrightarrow> coerce_AnchorPoint p = p"
  by (simp add: valid_AnchorPoint_def coerce_AnchorPoint_def coerce_utf8_valid
      coerce_Annotation_valid)

lemma coerce_AnchorPoints_valid: "list_all valid_AnchorPoint ps \<Longrightarrow> map coerce_AnchorPoint ps = ps"
  by (induction ps) (simp_all add: coerce_AnchorPoint_valid)

lemma coerce_Article_valid: "valid_Article a \<Longrightarrow> coerce_Article a = a"
  by (cases "Annotations a")
    (simp_all add: valid_Article_def coerce_Article_def coerce_utf8_valid coerce_AnchorPoints_valid)

subsection \<open>Persistence\<close>

lemma Save_ok:
  assumes "create_error fs filename = None" and "write_error fs filename = None"
  shows "Save article filename fs =
     (None, article, fs\<lparr>files := (files fs)(filename \<mapsto> Document (encode_Article article))\<rparr>)"
  using assms by (simp add: Save_def os_Create_def Encode_def Let_def)

lemma Save_create_error:
  assumes "create_error fs filename = Some err"
  shows "Save article filename fs = (Some err, article, fs)"
  using assms by (simp add: Save_def os_Create_def)

lemma Save_write_error:
  assumes "create_error fs filename = None" and "write_error fs filename = Some (err, left)"
  shows "Save article filename fs =
     (Some err, article, fs\<lparr>files := (files fs)(filename \<mapsto> left)\<rparr>)"
  using assms by (simp add: Save_def os_Create_def Encode_def Let_def)

lemma Save_cases:
  obtains (created) "create_error fs filename = None" "write_error fs filename = None"
  | (not_created) err where "create_error fs filename = Some err"
  | (not_written) err left where "create_error fs filename = None"
      "write_error fs filename = Some (err, left)"
  by (cases "create_error fs filename"; cases "write_error fs filename") auto

lemma Load_Document:
  assumes "open_error fs filename = None" and "files fs filename = Some (Document (encode_Article a))"
  shows "LoadScienceSourceArticle filename fs = (Some (coerce_Article a), None)"
  using assms
  by (simp add: LoadScienceSourceArticle_def os_Open_def Decode_def decode_encode_Article)

lemma valid_example_annotation: "valid_Annotation example_annotation"
  by (simp add: valid_Annotation_def example_annotation_def DecodeRuneInString.simps
      in_range_def accept_def)

lemma valid_example_anchor: "valid_AnchorPoint (example_anchor [CHR ''Q'', c])"
  if "of_char c < (128::nat)"
  using that
  by (simp add: valid_AnchorPoint_def example_anchor_def valid_example_annotation
      DecodeRuneInString.simps in_range_def accept_def)

lemma valid_example_article: "valid_Article example_article"
  by (simp add: valid_Article_def example_article_def valid_example_anchor
      DecodeRuneInString.simps in_range_def accept_def)





text \<open>
  C1, as amended. When \<open>Save\<close> returns nil and the file can be opened, loading the
  file returns a nil error and the article saved with every string coerced to valid
  UTF-8: the same integers, the same anchor points in the same order, a nil sequence
  of anchor points nil and an empty one empty. For an article whose strings are all
  valid UTF-8 that is the article saved. \<open>Save\<close> leaves its article as it was.
\<close>

theorem Save_Load_round_trip:
  assumes "Save article filename fs = (None, article', fs')"
    and "open_error fs filename = None"
  shows "article' = article \<and>
     LoadScienceSourceArticle filename fs' = (Some (coerce_Article article), None) \<and>
     (valid_Article article \<longrightarrow> LoadScienceSourceArticle filename fs' = (Some article, None))"
proof (cases rule: Save_cases [of fs filename])
  case created
  from Save_ok [OF created, of article] assms(1)
  have a: "article' = article"
    and fs': "fs' = fs\<lparr>files := (files fs)(filename \<mapsto> Document (encode_Article article))\<rparr>"
    by simp_all
  have "LoadScienceSourceArticle filename fs' = (Some (coerce_Article article), None)"
    by (rule Load_Document) (simp_all add: fs' assms(2))
  with a show ?thesis by (simp add: coerce_Article_valid)
next
  case (not_created err)
  from Save_create_error [OF not_created, of article] assms(1) show ?thesis by simp
next
  case (not_written err left)
  from Save_write_error [OF not_written, of article] assms(1) show ?thesis by simp
qed

theorem Save_Load_round_trip_witness:
  "Save example_article ''article.json'' empty_filesystem =
     (None, example_article,
      empty_filesystem\<lparr>files := [''article.json'' \<mapsto> Document (encode_Article example_article)]\<rparr>) \<and>
   open_error empty_filesystem ''article.json'' = None \<and>
   valid_Article example_article \<and>
   LoadScienceSourceArticle ''article.json''
     (empty_filesystem\<lparr>files := [''article.json'' \<mapsto> Document (encode_Article example_article)]\<rparr>) =
     (Some example_article, None)"
proof -
  have c: "create_error empty_filesystem ''article.json'' = None"
    and w: "write_error empty_filesystem ''article.json'' = None"
    and o: "open_error empty_filesystem ''article.json'' = None"
    and f: "files empty_filesystem = Map.empty"
    by (simp_all add: empty_filesystem_def)
  have s: "Save example_article ''article.json'' empty_filesystem =
     (None, example_article,
      empty_filesystem\<lparr>files := [''article.json'' \<mapsto> Document (encode_Article example_article)]\<rparr>)"
    using Save_ok [OF c w, of example_article] by (simp add: f)
  note t = Save_Load_round_trip [OF s o, THEN conjunct2, THEN conjunct2, THEN mp,
      OF valid_example_article]
  from s o valid_example_article t show ?thesis by (intro conjI)
qed

text \<open>
  The claim as stated fails for an article with a string that is not valid UTF-8: a
  title of the single byte FF is loaded as U+FFFD, the three bytes EF BF BD.
\<close>

theorem Save_Load_invalid_utf8_counterexample:
  "Save invalid_utf8_article ''article.json'' empty_filesystem =
     (None, invalid_utf8_article,
      empty_filesystem\<lparr>files :=
        [''article.json'' \<mapsto> Document (encode_Article invalid_utf8_article)]\<rparr>) \<and>
   LoadScienceSourceArticle ''article.json''
     (empty_filesystem\<lparr>files :=
        [''article.json'' \<mapsto> Document (encode_Article invalid_utf8_article)]\<rparr>) =
     (Some (zero_Article\<lparr>ArticleTextTitle := [CHR 0xEF, CHR 0xBF, CHR 0xBD]\<rparr>), None) \<and>
   ArticleTextTitle invalid_utf8_article = [CHR 0xFF] \<and>
   zero_Article\<lparr>ArticleTextTitle := [CHR 0xEF, CHR 0xBF, CHR 0xBD]\<rparr> \<noteq> invalid_utf8_article"
proof -
  have c: "create_error empty_filesystem ''article.json'' = None"
    and w: "write_error empty_filesystem ''article.json'' = None"
    and o: "open_error (empty_filesystem\<lparr>files :=
        [''article.json'' \<mapsto> Document (encode_Article invalid_utf8_article)]\<rparr>) ''article.json'' = None"
    and f: "files empty_filesystem = Map.empty"
    by (simp_all add: empty_filesystem_def)
  have s: "Save invalid_utf8_article ''article.json'' empty_filesystem =
     (None, invalid_utf8_article,
      empty_filesystem\<lparr>files :=
        [''article.json'' \<mapsto> Document (encode_Article invalid_utf8_article)]\<rparr>)"
    using Save_ok [OF c w, of invalid_utf8_article] by (simp add: f)
  have k: "coerce_Article invalid_utf8_article =
      zero_Article\<lparr>ArticleTextTitle := [CHR 0xEF, CHR 0xBF, CHR 0xBD]\<rparr>"
    by (simp add: coerce_Article_def invalid_utf8_article_def zero_Article_def
        DecodeRuneInString.simps in_range_def accept_def)
  have l: "LoadScienceSourceArticle ''article.json''
     (empty_filesystem\<lparr>files :=
        [''article.json'' \<mapsto> Document (encode_Article invalid_utf8_article)]\<rparr>) =
     (Some (zero_Article\<lparr>ArticleTextTitle := [CHR 0xEF, CHR 0xBF, CHR 0xBD]\<rparr>), None)"
    using Load_Document [OF o, of invalid_utf8_article] by (simp add: k)
  have t: "ArticleTextTitle invalid_utf8_article = [CHR 0xFF]"
    by (simp add: invalid_utf8_article_def)
  have n: "zero_Article\<lparr>ArticleTextTitle := [CHR 0xEF, CHR 0xBF, CHR 0xBD]\<rparr> \<noteq> invalid_utf8_article"
  proof
    assume "zero_Article\<lparr>ArticleTextTitle := [CHR 0xEF, CHR 0xBF, CHR 0xBD]\<rparr> = invalid_utf8_article"
    then have "ArticleTextTitle (zero_Article\<lparr>ArticleTextTitle := [CHR 0xEF, CHR 0xBF, CHR 0xBD]\<rparr>) =
        ArticleTextTitle invalid_utf8_article"
      by simp
    then show False by (simp add: t)
  qed
  from s l t n show ?thesis by (intro conjI)
qed




subsection \<open>UploadPaper\<close>

text \<open>
  C7. When the file cannot be read \<open>UploadPaper\<close> returns the error of the read, and
  when the store cannot create the article it returns the store's error, in both
  cases unchanged and with the article as it was. Otherwise it returns nil and the
  article differs from the one before the call in \<open>PageID\<close> only, which is the page
  id that \<open>CreateArticle\<close> returned for the article's title and the file's content.
\<close>

theorem UploadPaper_result:
  "(ReadFile htmlFileName = Inl err \<longrightarrow>
      UploadPaper w ReadFile article htmlFileName = (Some err, article)) \<and>
   (ReadFile htmlFileName = Inr data \<and>
    CreateArticle w (ScienceSourceArticleTitle_Ar article) data = Inl err \<longrightarrow>
      UploadPaper w ReadFile article htmlFileName = (Some err, article)) \<and>
   (ReadFile htmlFileName = Inr data \<and>
    CreateArticle w (ScienceSourceArticleTitle_Ar article) data = Inr page_id \<longrightarrow>
      UploadPaper w ReadFile article htmlFileName = (None, article\<lparr>PageID := page_id\<rparr>))"
  by (simp add: UploadPaper_def)

theorem UploadPaper_result_witness:
  "example_ReadFile ''missing.html'' = Inl (PathError ''open'' ''missing.html'') \<and>
   UploadPaper working_store example_ReadFile example_article ''missing.html'' =
     (Some (PathError ''open'' ''missing.html''), example_article) \<and>
   example_ReadFile ''paper.html'' = Inr ''<html></html>'' \<and>
   CreateArticle unreachable_store (ScienceSourceArticleTitle_Ar example_article)
     ''<html></html>'' = Inl (ClientError ''connection refused'') \<and>
   UploadPaper unreachable_store example_ReadFile example_article ''paper.html'' =
     (Some (ClientError ''connection refused''), example_article) \<and>
   CreateArticle working_store (ScienceSourceArticleTitle_Ar example_article)
     ''<html></html>'' = Inr 7 \<and>
   UploadPaper working_store example_ReadFile example_article ''paper.html'' =
     (None, example_article\<lparr>PageID := 7\<rparr>)"
proof -
  have a: "example_ReadFile ''missing.html'' = Inl (PathError ''open'' ''missing.html'')"
    by (simp add: example_ReadFile_def)
  have b: "example_ReadFile ''paper.html'' = Inr ''<html></html>''"
    by (simp add: example_ReadFile_def)
  have c: "CreateArticle unreachable_store (ScienceSourceArticleTitle_Ar example_article)
     ''<html></html>'' = Inl (ClientError ''connection refused'')"
    by (simp add: unreachable_store_def)
  have d: "CreateArticle working_store (ScienceSourceArticleTitle_Ar example_article)
     ''<html></html>'' = Inr 7"
    by (simp add: working_store_def)
  note ta = UploadPaper_result [of example_ReadFile "''missing.html''"
      "PathError ''open'' ''missing.html''" working_store example_article "[]" 0,
      THEN conjunct1, THEN mp, OF a]
  note tc = UploadPaper_result [of example_ReadFile "''paper.html''"
      "ClientError ''connection refused''" unreachable_store example_article "''<html></html>''" 0,
      THEN conjunct2, THEN conjunct1, THEN mp, OF conjI [OF b c]]
  note td = UploadPaper_result [of example_ReadFile "''paper.html''"
      "ClientError ''connection refused''" working_store example_article "''<html></html>''" 7,
      THEN conjunct2, THEN conjunct2, THEN mp, OF conjI [OF b d]]
  from a ta b c tc d td show ?thesis by (intro conjI)
qed

subsection \<open>The chain of anchor points\<close>

lemma link_chain_length: "length (link_chain prev terminus ps) = length ps"
  by (induction prev terminus ps rule: link_chain.induct) simp_all

lemma link_chain_ids:
  "map ScienceSourceItemID_AP (link_chain prev terminus ps) = map ScienceSourceItemID_AP ps"
  by (induction prev terminus ps rule: link_chain.induct) simp_all

lemma link_chain_annotations:
  "map Annotation (link_chain prev terminus ps) = map Annotation ps"
  by (induction prev terminus ps rule: link_chain.induct) simp_all

lemma link_chain_first:
  "ps \<noteq> [] \<Longrightarrow> PrecedingAnchorPoint (hd (link_chain prev terminus ps)) = prev"
  by (induction prev terminus ps rule: link_chain.induct) simp_all

lemma link_chain_last:
  "ps \<noteq> [] \<Longrightarrow> FollowingAnchorPoint_AP (last (link_chain prev terminus ps)) = terminus"
proof (induction prev terminus ps rule: link_chain.induct)
  case (3 prev terminus p q ps)
  have "link_chain (ScienceSourceItemID_AP p) terminus (q # ps) \<noteq> []"
    using link_chain_length [of "ScienceSourceItemID_AP p" terminus "q # ps"] by auto
  with 3 show ?case by simp
qed simp_all

lemma link_chain_adjacent:
  "Suc i < length ps \<Longrightarrow>
   FollowingAnchorPoint_AP (link_chain prev terminus ps ! i) = ScienceSourceItemID_AP (ps ! Suc i) \<and>
   PrecedingAnchorPoint (link_chain prev terminus ps ! Suc i) = ScienceSourceItemID_AP (ps ! i)"
proof (induction prev terminus ps arbitrary: i rule: link_chain.induct)
  case (3 prev terminus p q ps)
  show ?case
  proof (cases i)
    case 0
    have "PrecedingAnchorPoint (hd (link_chain (ScienceSourceItemID_AP p) terminus (q # ps))) =
        ScienceSourceItemID_AP p"
      by (rule link_chain_first) simp
    moreover have "link_chain (ScienceSourceItemID_AP p) terminus (q # ps) \<noteq> []"
      using link_chain_length [of "ScienceSourceItemID_AP p" terminus "q # ps"] by auto
    ultimately show ?thesis using 0 by (simp add: hd_conv_nth)
  next
    case (Suc j)
    with "3.prems" have "Suc j < length (q # ps)" by simp
    from "3.IH" [OF this] Suc show ?thesis by simp
  qed
qed simp_all

lemma link_example:
  "Annotations (link_Article ''Q-start'' ''Q-end'' example_article) = Some linked_example"
  by (simp add: link_Article_def example_article_def linked_example_def example_anchor_def)

text \<open>
  C6. In a linked article the anchor points are those of the article before, in the
  same order and with the same remote ids. Of two adjacent anchor points the first has
  the remote id of the second as its following reference and the second has the remote
  id of the first as its preceding reference. The preceding reference of the first
  anchor point and the following reference of the last are the two terminus markers.
\<close>

theorem linked_chain_consistent:
  assumes "Annotations (link_Article leading trailing article) = Some ps"
  shows "(\<exists>qs. Annotations article = Some qs \<and> length ps = length qs \<and>
            map ScienceSourceItemID_AP ps = map ScienceSourceItemID_AP qs) \<and>
     (\<forall>i. Suc i < length ps \<longrightarrow>
        FollowingAnchorPoint_AP (ps ! i) = ScienceSourceItemID_AP (ps ! Suc i) \<and>
        PrecedingAnchorPoint (ps ! Suc i) = ScienceSourceItemID_AP (ps ! i)) \<and>
     (ps \<noteq> [] \<longrightarrow>
        PrecedingAnchorPoint (hd ps) = leading \<and> FollowingAnchorPoint_AP (last ps) = trailing)"
proof -
  from assms obtain qs where qs: "Annotations article = Some qs"
    and ps: "ps = link_chain leading trailing qs"
    by (auto simp: link_Article_def)
  have len: "length ps = length qs" by (simp add: ps link_chain_length)
  have ids: "map ScienceSourceItemID_AP ps = map ScienceSourceItemID_AP qs"
    by (simp add: ps link_chain_ids)
  have adj: "FollowingAnchorPoint_AP (ps ! i) = ScienceSourceItemID_AP (ps ! Suc i) \<and>
        PrecedingAnchorPoint (ps ! Suc i) = ScienceSourceItemID_AP (ps ! i)"
    if i: "Suc i < length ps" for i
  proof -
    from i len have iq: "Suc i < length qs" by simp
    from ids have "map ScienceSourceItemID_AP ps ! j = map ScienceSourceItemID_AP qs ! j" for j
      by simp
    with i len have "ScienceSourceItemID_AP (ps ! Suc i) = ScienceSourceItemID_AP (qs ! Suc i)"
      "ScienceSourceItemID_AP (ps ! i) = ScienceSourceItemID_AP (qs ! i)"
      by (metis Suc_lessD nth_map)+
    with link_chain_adjacent [OF iq, of leading trailing] show ?thesis by (simp add: ps)
  qed
  have ends: "PrecedingAnchorPoint (hd ps) = leading \<and> FollowingAnchorPoint_AP (last ps) = trailing"
    if "ps \<noteq> []"
  proof -
    from that len have "qs \<noteq> []" by auto
    then show ?thesis by (simp add: ps link_chain_first link_chain_last)
  qed
  from qs len ids adj ends show ?thesis by blast
qed

theorem linked_chain_consistent_witness:
  "Annotations (link_Article ''Q-start'' ''Q-end'' example_article) = Some linked_example \<and>
   Suc 1 < length linked_example \<and>
   FollowingAnchorPoint_AP (linked_example ! 1) = ScienceSourceItemID_AP (linked_example ! Suc 1) \<and>
   PrecedingAnchorPoint (linked_example ! Suc 1) = ScienceSourceItemID_AP (linked_example ! 1) \<and>
   Suc 0 < length linked_example \<and>
   FollowingAnchorPoint_AP (linked_example ! 0) = ScienceSourceItemID_AP (linked_example ! Suc 0) \<and>
   PrecedingAnchorPoint (linked_example ! Suc 0) = ScienceSourceItemID_AP (linked_example ! 0) \<and>
   linked_example \<noteq> [] \<and>
   PrecedingAnchorPoint (hd linked_example) = ''Q-start'' \<and>
   FollowingAnchorPoint_AP (last linked_example) = ''Q-end''"
proof -
  note t = linked_chain_consistent [OF link_example]
  have a: "Suc 1 < length linked_example" by (simp add: linked_example_def)
  have b: "Suc 0 < length linked_example" by (simp add: linked_example_def)
  have c: "linked_example \<noteq> []" by (simp add: linked_example_def)
  note ta = t [THEN conjunct2, THEN conjunct1, THEN spec, of 1, THEN mp, OF a]
  note tb = t [THEN conjunct2, THEN conjunct1, THEN spec, of 0, THEN mp, OF b]
  note tc = t [THEN conjunct2, THEN conjunct2, THEN mp, OF c]
  from link_example a ta b tb c tc show ?thesis by (intro conjI) simp_all
qed

end
